theory Spec2Isabelle
  imports Main "HOL-Library.AList"
begin

section \<open>Disaster recovery for the Kamailio server: a model of \<^verbatim>\<open>kamailio_disaster_recovery.py\<close>\<close>

text \<open>
  The class \<^verbatim>\<open>KamailioDisasterRecovery\<close> works on the file system and on external
  programs (\<^verbatim>\<open>gpg\<close>, \<^verbatim>\<open>aws\<close>, \<^verbatim>\<open>systemctl\<close>). Each method is a function from a
  \<open>world\<close> (files, log, commands issued) to a result and the world it leaves behind; an
  exception is the \<open>Inl\<close> of the result, and the world of an \<open>Inl\<close> holds the effects
  that happened before the exception. What the operating system and the external programs
  answer is not in the source: it is a parameter, the record \<open>env\<close>.

  Paths are absolute, normalised strings, and the file system is a table from paths to
  files, in the order a directory listing gives them. A component that is a directory is
  one entry of the table whose content stands for the whole tree. The clock shows the same
  time throughout one call.
\<close>

subsection \<open>Paths and strings\<close>

type_synonym path = string

text \<open>\<^verbatim>\<open>os.path.basename\<close> (posix): everything after the last slash.\<close>

definition basename :: "path \<Rightarrow> string" where
  "basename p = rev (takeWhile (\<lambda>c. c \<noteq> CHR ''/'') (rev p))"

text \<open>\<^verbatim>\<open>os.path.join(a, b)\<close> (posix): an absolute \<open>b\<close> replaces \<open>a\<close>.\<close>

definition path_join :: "path \<Rightarrow> string \<Rightarrow> path" where
  "path_join a b =
     (if b \<noteq> [] \<and> hd b = CHR ''/'' then b
      else if a = [] \<or> last a = CHR ''/'' then a @ b
      else a @ ''/'' @ b)"

text \<open>\<^verbatim>\<open>s.endswith(suf)\<close>.\<close>

definition endswith :: "string \<Rightarrow> string \<Rightarrow> bool" where
  "endswith s suf \<longleftrightarrow> length suf \<le> length s \<and> drop (length s - length suf) s = suf"

subsection \<open>Files, log and commands\<close>

text \<open>
  What a file holds. \<open>Opaque\<close> is any content the program does not look into (a
  component is archived as one unit, a directory tree included). \<open>Socket\<close> is a file of a
  type that \<^verbatim>\<open>tarfile\<close> has no record for (a unix socket). \<open>TarGz\<close> is a closed
  archive with its members (archive name, content, modification time), \<open>PartialTarGz\<close> an
  archive that was opened for writing and not closed normally, with the whole members that
  reached the file, \<open>Gpg k c\<close> the content \<open>c\<close> encrypted symmetrically under the
  passphrase \<open>k\<close>.
\<close>

datatype content =
    Opaque string
  | Socket
  | TarGz "(string \<times> content \<times> int) list"
  | PartialTarGz "(string \<times> content \<times> int) list"
  | Gpg string content

text \<open>
  A file is its content and its modification time, the value of
  \<^verbatim>\<open>datetime.fromtimestamp(os.path.getmtime(p))\<close> in microseconds since
  0001-01-01T00:00:00 (local time, as \<^verbatim>\<open>datetime.now()\<close>).
\<close>

type_synonym fnode = "content \<times> int"
type_synonym member = "string \<times> content \<times> int"

datatype error =
    FileNotFoundError path
  | OSError string
  | CalledProcessError string
  | KeyError string
  | ValueError string
  | TypeError
  | ReadError path
  | OverflowError

datatype level = INFO | WARNING | ERROR

text \<open>A log record: level, message, and the exception formatted into the message, if any.\<close>

datatype log_entry = Log level string "error option"

datatype command =
    GpgSymmetric string path
  | GpgDecrypt string path path
  | AwsS3Cp path string string string
  | SystemctlRestart string

record world =
  files :: "(path \<times> fnode) list"
  logs :: "log_entry list"
  calls :: "command list"

text \<open>How a child process started by \<^verbatim>\<open>subprocess.run(..., check=True)\<close> ends.\<close>

datatype proc_status = Exited0 | ExitedNonZero | NotStarted

text \<open>
  The environment of one run: the clock, the passphrase variable, and for every system
  call and external program whether it fails for a reason outside the model (permissions,
  disk full, a program that is not installed, a concurrent process). When closing an
  archive fails, \<open>flushed\<close> says how many of its members had reached the file.
\<close>

record env =
  now :: int
  strftime :: "int \<Rightarrow> string"
  environ_key :: "string option"
  open_fails :: "path \<Rightarrow> bool"
  add_fails :: "path \<Rightarrow> bool"
  close_fails :: "path \<Rightarrow> bool"
  flushed :: "path \<Rightarrow> nat"
  remove_fails :: "path \<Rightarrow> bool"
  stat_fails :: "path \<Rightarrow> bool"
  listdir_fails :: "path \<Rightarrow> bool"
  extract_fails :: "path \<Rightarrow> bool"
  gpg_encrypt_status :: "path \<Rightarrow> proc_status"
  gpg_decrypt_status :: "path \<Rightarrow> proc_status"
  aws_status :: "path \<Rightarrow> proc_status"
  systemctl_status :: proc_status

type_synonym 'a result = "(error + 'a) \<times> world"

definition lookup :: "world \<Rightarrow> path \<Rightarrow> fnode option" where
  "lookup w p = map_of (files w) p"

definition path_exists :: "world \<Rightarrow> path \<Rightarrow> bool" where
  "path_exists w p \<longleftrightarrow> lookup w p \<noteq> None"

definition write_file :: "path \<Rightarrow> content \<Rightarrow> int \<Rightarrow> world \<Rightarrow> world" where
  "write_file p c t w = w\<lparr>files := AList.update p (c, t) (files w)\<rparr>"

definition delete_file :: "path \<Rightarrow> world \<Rightarrow> world" where
  "delete_file p w = w\<lparr>files := AList.delete p (files w)\<rparr>"

definition log_msg :: "level \<Rightarrow> string \<Rightarrow> world \<Rightarrow> world" where
  "log_msg l m w = w\<lparr>logs := logs w @ [Log l m None]\<rparr>"

definition log_exc :: "level \<Rightarrow> string \<Rightarrow> error \<Rightarrow> world \<Rightarrow> world" where
  "log_exc l m e w = w\<lparr>logs := logs w @ [Log l m (Some e)]\<rparr>"

definition record_call :: "command \<Rightarrow> world \<Rightarrow> world" where
  "record_call c w = w\<lparr>calls := calls w @ [c]\<rparr>"

text \<open>Sequencing: an exception skips the rest.\<close>

definition and_then :: "'a result \<Rightarrow> ('a \<Rightarrow> world \<Rightarrow> 'b result) \<Rightarrow> 'b result" where
  "and_then r f = (case r of (Inl e, w) \<Rightarrow> (Inl e, w) | (Inr x, w) \<Rightarrow> f x w)"

text \<open>\<^verbatim>\<open>os.remove(p)\<close>.\<close>

definition os_remove :: "env \<Rightarrow> path \<Rightarrow> world \<Rightarrow> unit result" where
  "os_remove env p w =
     (if lookup w p = None then (Inl (FileNotFoundError p), w)
      else if remove_fails env p then (Inl (OSError p), w)
      else (Inr (), delete_file p w))"

text \<open>\<^verbatim>\<open>os.environ.get('BACKUP_ENCRYPTION_KEY', 'default_key')\<close>.\<close>

definition passphrase :: "env \<Rightarrow> string" where
  "passphrase env = (case environ_key env of Some k \<Rightarrow> k | None \<Rightarrow> ''default_key'')"

subsection \<open>Configuration\<close>

text \<open>
  The configuration dictionary, with the types of the configuration file's schema. A field
  read with \<^verbatim>\<open>.get(key, default)\<close> is optional; \<^verbatim>\<open>components_to_backup\<close> is read
  with \<^verbatim>\<open>config['components_to_backup']\<close> and is present in every configuration that
  \<^verbatim>\<open>load_recovery_config\<close> returns.
\<close>

record remote_cfg =
  rem_enabled :: "bool option"
  rem_type :: "string option"
  bucket :: "string option"
  access_key :: "string option"
  secret_key :: "string option"

record enc_cfg =
  enc_enabled :: "bool option"
  enc_method :: "string option"

record config =
  backup_directory :: "string option"
  backup_retention_days :: "int option"
  backup_type :: "string option"
  components_to_backup :: "string list"
  remote_backup :: "remote_cfg option"
  encryption :: "enc_cfg option"

text \<open>\<^verbatim>\<open>self.backup_base_dir = self.config.get('backup_directory', '/var/backups/kamailio')\<close>.\<close>

definition backup_base_dir :: "config \<Rightarrow> path" where
  "backup_base_dir cfg =
     (case backup_directory cfg of Some d \<Rightarrow> d | None \<Rightarrow> ''/var/backups/kamailio'')"

text \<open>\<^verbatim>\<open>self.config.get('encryption', {}).get('enabled', False)\<close>.\<close>

definition encryption_enabled :: "config \<Rightarrow> bool" where
  "encryption_enabled cfg =
     (case encryption cfg of None \<Rightarrow> False
      | Some e \<Rightarrow> (case enc_enabled e of None \<Rightarrow> False | Some b \<Rightarrow> b))"

text \<open>\<^verbatim>\<open>self.config.get('encryption', {}).get('method', 'gpg')\<close>.\<close>

definition encryption_method :: "config \<Rightarrow> string" where
  "encryption_method cfg =
     (case encryption cfg of None \<Rightarrow> ''gpg''
      | Some e \<Rightarrow> (case enc_method e of None \<Rightarrow> ''gpg'' | Some m \<Rightarrow> m))"

text \<open>\<^verbatim>\<open>self.config.get('remote_backup', {})\<close>: the empty dictionary has no key.\<close>

definition remote_config :: "config \<Rightarrow> remote_cfg" where
  "remote_config cfg =
     (case remote_backup cfg of Some r \<Rightarrow> r
      | None \<Rightarrow> \<lparr>rem_enabled = None, rem_type = None, bucket = None,
                  access_key = None, secret_key = None\<rparr>)"

definition remote_enabled :: "config \<Rightarrow> bool" where
  "remote_enabled cfg = (case rem_enabled (remote_config cfg) of None \<Rightarrow> False | Some b \<Rightarrow> b)"

text \<open>\<^verbatim>\<open>self.config.get('backup_retention_days', 30)\<close>.\<close>

definition retention_days :: "config \<Rightarrow> int" where
  "retention_days cfg = (case backup_retention_days cfg of Some d \<Rightarrow> d | None \<Rightarrow> 30)"

subsection \<open>\<^verbatim>\<open>create_backup\<close>\<close>

text \<open>\<^verbatim>\<open>backup_type = backup_type or self.config.get('backup_type', 'full')\<close>.\<close>

definition effective_backup_type :: "config \<Rightarrow> string option \<Rightarrow> string" where
  "effective_backup_type cfg arg =
     (let configured = (case backup_type cfg of Some t \<Rightarrow> t | None \<Rightarrow> ''full'')
      in case arg of None \<Rightarrow> configured
         | Some s \<Rightarrow> if s = [] then configured else s)"

definition backup_filename :: "config \<Rightarrow> env \<Rightarrow> string option \<Rightarrow> string" where
  "backup_filename cfg env arg =
     ''kamailio_backup_'' @ effective_backup_type cfg arg @ ''_''
       @ strftime env (now env) @ ''.tar.gz''"

definition backup_path_of :: "config \<Rightarrow> env \<Rightarrow> string option \<Rightarrow> path" where
  "backup_path_of cfg env arg = path_join (backup_base_dir cfg) (backup_filename cfg env arg)"

text \<open>
  \<^verbatim>\<open>tarfile.open(backup_path, "w:gz")\<close> creates or truncates the file. The file on disk
  follows the members added so far; it becomes a \<open>TarGz\<close> only when the \<^verbatim>\<open>with\<close> block
  is left normally.
\<close>

definition tar_open_w :: "env \<Rightarrow> path \<Rightarrow> world \<Rightarrow> unit result" where
  "tar_open_w env ap w =
     (if open_fails env ap then (Inl (OSError ap), w)
      else (Inr (), write_file ap (PartialTarGz []) (now env) w))"

text \<open>
  The loop over \<^verbatim>\<open>self.config['components_to_backup']\<close>, with the members written so
  far. \<^verbatim>\<open>tar.add\<close> leaves out the archive itself (tarfile skips a name equal to the
  archive's own), raises on a component it cannot examine, read or write out, and returns
  without storing anything, and without a message, for a file of a type it has no record
  for.
\<close>

fun add_components :: "env \<Rightarrow> path \<Rightarrow> string list \<Rightarrow> member list \<Rightarrow> world \<Rightarrow> member list result" where
  "add_components env ap [] ms w = (Inr ms, w)"
| "add_components env ap (c # cs) ms w =
     (case lookup w c of
        None \<Rightarrow> add_components env ap cs ms
                  (log_msg WARNING (''Backup component not found: '' @ c) w)
      | Some n \<Rightarrow>
          if c = ap then add_components env ap cs ms w
          else if add_fails env c then (Inl (OSError c), w)
          else if fst n = Socket then add_components env ap cs ms w
          else add_components env ap cs (ms @ [(basename c, n)])
                 (write_file ap (PartialTarGz (ms @ [(basename c, n)])) (now env) w))"

text \<open>
  Leaving the \<^verbatim>\<open>with\<close> block closes the archive: the buffers are flushed and the end of
  the archive is written. When that fails (a full disk), the exception leaves the file
  with the members that had reached it.
\<close>

definition tar_close :: "env \<Rightarrow> path \<Rightarrow> member list \<Rightarrow> world \<Rightarrow> unit result" where
  "tar_close env ap ms w =
     (if close_fails env ap
      then (Inl (OSError ap), write_file ap (PartialTarGz (take (flushed env ap) ms)) (now env) w)
      else (Inr (), write_file ap (TarGz ms) (now env) w))"

definition build_archive :: "env \<Rightarrow> string list \<Rightarrow> path \<Rightarrow> world \<Rightarrow> unit result" where
  "build_archive env comps ap w =
     and_then (tar_open_w env ap w) (\<lambda>_ w1.
     and_then (add_components env ap comps [] w1) (\<lambda>ms w2.
       tar_close env ap ms w2))"

text \<open>
  \<^verbatim>\<open>gpg -c --batch --passphrase k p\<close>: writes the encrypted file \<^verbatim>\<open>p.gpg\<close> beside
  \<open>p\<close> and leaves \<open>p\<close> alone; a failing \<^verbatim>\<open>gpg\<close> writes nothing.
\<close>

definition gpg_symmetric :: "env \<Rightarrow> path \<Rightarrow> world \<Rightarrow> unit result" where
  "gpg_symmetric env p w =
     (let w1 = record_call (GpgSymmetric (passphrase env) p) w
      in case gpg_encrypt_status env p of
           NotStarted \<Rightarrow> (Inl (OSError ''gpg''), w1)
         | ExitedNonZero \<Rightarrow> (Inl (CalledProcessError ''gpg''), w1)
         | Exited0 \<Rightarrow>
             (case lookup w1 p of
                None \<Rightarrow> (Inl (CalledProcessError ''gpg''), w1)
              | Some (c, t) \<Rightarrow>
                  (Inr (), write_file (p @ ''.gpg'') (Gpg (passphrase env) c) (now env) w1)))"

definition encrypt_backup :: "config \<Rightarrow> env \<Rightarrow> path \<Rightarrow> world \<Rightarrow> unit result" where
  "encrypt_backup cfg env backup_path w =
     (if encryption_method cfg = ''gpg'' then
        (case gpg_symmetric env backup_path w of
           (Inl e, w1) \<Rightarrow>
             (case e of
                CalledProcessError c \<Rightarrow>
                  (Inr (), log_exc ERROR ''Backup encryption failed: '' e w1)
              | _ \<Rightarrow> (Inl e, w1))
         | (Inr _, w1) \<Rightarrow>
             and_then (os_remove env backup_path w1) (\<lambda>_ w2.
               (Inr (), log_msg INFO (''Backup encrypted: '' @ backup_path @ ''.gpg'') w2)))
      else (Inr (), w))"

text \<open>
  \<^verbatim>\<open>aws s3 cp p s3://bucket/\<close>: exits with an error when the local file is not there.
  The three dictionary reads raise \<^verbatim>\<open>KeyError\<close> before the process is started.
\<close>

definition upload_remote_backup :: "config \<Rightarrow> env \<Rightarrow> path \<Rightarrow> world \<Rightarrow> unit result" where
  "upload_remote_backup cfg env backup_path w =
     (let rc = remote_config cfg in
      if rem_type rc = Some ''s3'' then
        (case bucket rc of
           None \<Rightarrow> (Inl (KeyError ''bucket''), w)
         | Some b \<Rightarrow>
            (case access_key rc of
               None \<Rightarrow> (Inl (KeyError ''access_key''), w)
             | Some ak \<Rightarrow>
                (case secret_key rc of
                   None \<Rightarrow> (Inl (KeyError ''secret_key''), w)
                 | Some sk \<Rightarrow>
                    (let w1 = record_call (AwsS3Cp backup_path (''s3://'' @ b @ ''/'') ak sk) w
                     in case aws_status env backup_path of
                          NotStarted \<Rightarrow> (Inl (OSError ''aws''), w1)
                        | ExitedNonZero \<Rightarrow>
                            (Inr (), log_exc ERROR ''Remote backup upload failed: ''
                                       (CalledProcessError ''aws'') w1)
                        | Exited0 \<Rightarrow>
                            if path_exists w1 backup_path
                            then (Inr (), log_msg INFO (''Backup uploaded to S3: '' @ b) w1)
                            else (Inr (), log_exc ERROR ''Remote backup upload failed: ''
                                            (CalledProcessError ''aws'') w1)))))
      else (Inr (), w))"

definition create_backup :: "config \<Rightarrow> env \<Rightarrow> string option \<Rightarrow> world \<Rightarrow> path result" where
  "create_backup cfg env arg w =
     (let backup_path = backup_path_of cfg env arg in
      case
        and_then (build_archive env (components_to_backup cfg) backup_path w) (\<lambda>_ w1.
        and_then (if encryption_enabled cfg then encrypt_backup cfg env backup_path w1
                  else (Inr (), w1)) (\<lambda>_ w2.
        and_then (if remote_enabled cfg then upload_remote_backup cfg env backup_path w2
                  else (Inr (), w2)) (\<lambda>_ w3.
          (Inr backup_path, log_msg INFO (''Backup created: '' @ backup_path) w3))))
      of (Inl e, w') \<Rightarrow> (Inl e, log_exc ERROR ''Backup creation failed: '' e w')
       | (Inr p, w') \<Rightarrow> (Inr p, w'))"

subsection \<open>\<^verbatim>\<open>rotate_backups\<close>\<close>

text \<open>
  \<^verbatim>\<open>timedelta(days=d)\<close> raises \<^verbatim>\<open>OverflowError\<close> beyond 999999999 days, and
  \<^verbatim>\<open>datetime.now() - timedelta(...)\<close> raises it when the result leaves the years 1 to
  9999. Both happen before the \<^verbatim>\<open>try\<close> of \<^verbatim>\<open>rotate_backups\<close>.
\<close>

definition datetime_max :: int where
  "datetime_max = 3652059 * 86400000000 - 1"

definition timedelta_days :: "int \<Rightarrow> error + int" where
  "timedelta_days d = (if \<bar>d\<bar> > 999999999 then Inl OverflowError else Inr (d * 86400000000))"

definition datetime_sub :: "int \<Rightarrow> int \<Rightarrow> error + int" where
  "datetime_sub t delta =
     (if t - delta < 0 \<or> t - delta > datetime_max then Inl OverflowError else Inr (t - delta))"

definition cutoff_date :: "config \<Rightarrow> env \<Rightarrow> error + int" where
  "cutoff_date cfg env =
     (case timedelta_days (retention_days cfg) of
        Inl e \<Rightarrow> Inl e
      | Inr delta \<Rightarrow> datetime_sub (now env) delta)"

text \<open>
  \<^verbatim>\<open>os.listdir(d)\<close>: the names of the entries directly in \<open>d\<close>, in the order the file
  system gives them (here: the order of the file table).
\<close>

definition dir_prefix :: "path \<Rightarrow> string" where
  "dir_prefix d = (if d = [] \<or> last d = CHR ''/'' then d else d @ ''/'')"

definition child_name :: "path \<Rightarrow> path \<Rightarrow> string option" where
  "child_name d p =
     (let pre = dir_prefix d; name = drop (length pre) p
      in if take (length pre) p = pre \<and> name \<noteq> [] \<and> CHR ''/'' \<notin> set name
         then Some name else None)"

definition dir_entries :: "world \<Rightarrow> path \<Rightarrow> string list" where
  "dir_entries w d = List.map_filter (child_name d) (remdups (map fst (files w)))"

definition os_listdir :: "env \<Rightarrow> path \<Rightarrow> world \<Rightarrow> (error + string list)" where
  "os_listdir env d w = (if listdir_fails env d then Inl (OSError d) else Inr (dir_entries w d))"

text \<open>\<^verbatim>\<open>datetime.fromtimestamp(os.path.getmtime(p))\<close>.\<close>

definition getmtime :: "env \<Rightarrow> path \<Rightarrow> world \<Rightarrow> error + int" where
  "getmtime env p w =
     (case lookup w p of
        None \<Rightarrow> Inl (FileNotFoundError p)
      | Some (c, t) \<Rightarrow> if stat_fails env p then Inl (OSError p) else Inr t)"

text \<open>The body of the \<^verbatim>\<open>for\<close> loop; an exception leaves the loop.\<close>

fun rotate_loop :: "env \<Rightarrow> int \<Rightarrow> path \<Rightarrow> string list \<Rightarrow> world \<Rightarrow> unit result" where
  "rotate_loop env cutoff dir [] w = (Inr (), w)"
| "rotate_loop env cutoff dir (backup_file # rest) w =
     (let backup_path = path_join dir backup_file in
      case getmtime env backup_path w of
        Inl e \<Rightarrow> (Inl e, w)
      | Inr mod_time \<Rightarrow>
          if mod_time < cutoff then
            and_then (os_remove env backup_path w) (\<lambda>_ w1.
              rotate_loop env cutoff dir rest
                (log_msg INFO (''Removed old backup: '' @ backup_file) w1))
          else rotate_loop env cutoff dir rest w)"

definition rotate_scan :: "config \<Rightarrow> env \<Rightarrow> int \<Rightarrow> world \<Rightarrow> unit result" where
  "rotate_scan cfg env cutoff w =
     (case os_listdir env (backup_base_dir cfg) w of
        Inl e \<Rightarrow> (Inl e, w)
      | Inr names \<Rightarrow> rotate_loop env cutoff (backup_base_dir cfg) names w)"

definition rotate_backups :: "config \<Rightarrow> env \<Rightarrow> world \<Rightarrow> unit result" where
  "rotate_backups cfg env w =
     (case cutoff_date cfg env of
        Inl e \<Rightarrow> (Inl e, w)
      | Inr cutoff \<Rightarrow>
          (case rotate_scan cfg env cutoff w of
             (Inl e, w1) \<Rightarrow> (Inr (), log_exc ERROR ''Backup rotation failed: '' e w1)
           | (Inr u, w1) \<Rightarrow> (Inr (), w1)))"

subsection \<open>\<^verbatim>\<open>restore_backup\<close>\<close>

text \<open>
  \<^verbatim>\<open>gpg -d --batch --passphrase k -o dst src\<close>: writes the plaintext to \<open>dst\<close> when
  \<open>src\<close> is encrypted under \<open>k\<close>, and exits with an error, writing nothing, otherwise.
\<close>

definition gpg_decrypt :: "env \<Rightarrow> path \<Rightarrow> path \<Rightarrow> world \<Rightarrow> unit result" where
  "gpg_decrypt env src dst w =
     (let w1 = record_call (GpgDecrypt (passphrase env) dst src) w
      in case gpg_decrypt_status env src of
           NotStarted \<Rightarrow> (Inl (OSError ''gpg''), w1)
         | ExitedNonZero \<Rightarrow> (Inl (CalledProcessError ''gpg''), w1)
         | Exited0 \<Rightarrow>
             (case lookup w1 src of
                Some (Gpg k c, t) \<Rightarrow>
                  if k = passphrase env then (Inr (), write_file dst c (now env) w1)
                  else (Inl (CalledProcessError ''gpg''), w1)
              | _ \<Rightarrow> (Inl (CalledProcessError ''gpg''), w1)))"

text \<open>
  What \<^verbatim>\<open>tarfile\<close> reads from a file: the members of a closed archive, and also those
  of an archive that lacks its end but holds at least one whole member. A file without any
  member and without the end of an archive is an empty file to \<^verbatim>\<open>tarfile\<close>, and
  anything else is no archive: both are a \<^verbatim>\<open>ReadError\<close>.
\<close>

definition archive_members :: "content \<Rightarrow> member list option" where
  "archive_members c =
     (case c of
        TarGz ms \<Rightarrow> Some ms
      | PartialTarGz ms \<Rightarrow> (if ms = [] then None else Some ms)
      | _ \<Rightarrow> None)"

text \<open>\<^verbatim>\<open>tarfile.open(p, "r:gz")\<close>.\<close>

definition tar_open_r :: "env \<Rightarrow> path \<Rightarrow> world \<Rightarrow> member list result" where
  "tar_open_r env p w =
     (case lookup w p of
        None \<Rightarrow> (Inl (FileNotFoundError p), w)
      | Some (c, t) \<Rightarrow>
          if open_fails env p then (Inl (OSError p), w)
          else (case archive_members c of
                  Some ms \<Rightarrow> (Inr ms, w)
                | None \<Rightarrow> (Inl (ReadError p), w)))"

text \<open>
  \<^verbatim>\<open>tar.extractall(path='/')\<close>: every member is written at \<^verbatim>\<open>os.path.join('/', name)\<close>
  with the modification time the archive recorded; a member that cannot be written stops
  the extraction, the members before it stay.
\<close>

fun extractall :: "env \<Rightarrow> member list \<Rightarrow> world \<Rightarrow> unit result" where
  "extractall env [] w = (Inr (), w)"
| "extractall env ((name, c, t) # ms) w =
     (let target = path_join ''/'' name in
      if extract_fails env target then (Inl (OSError target), w)
      else extractall env ms (write_file target c t w))"

definition restart_kamailio :: "env \<Rightarrow> world \<Rightarrow> unit result" where
  "restart_kamailio env w =
     (let w1 = record_call (SystemctlRestart ''kamailio'') w
      in case systemctl_status env of
           NotStarted \<Rightarrow> (Inl (OSError ''systemctl''), w1)
         | ExitedNonZero \<Rightarrow> (Inl (CalledProcessError ''systemctl''), w1)
         | Exited0 \<Rightarrow> (Inr (), w1))"

text \<open>The \<^verbatim>\<open>if backup_path.endswith('.gpg')\<close> block: the path the archive is read from.\<close>

definition decrypt_if_encrypted :: "env \<Rightarrow> path \<Rightarrow> world \<Rightarrow> path result" where
  "decrypt_if_encrypted env backup_path w =
     (if endswith backup_path ''.gpg'' then
        (let decrypted_path = take (length backup_path - 4) backup_path in
         and_then (gpg_decrypt env backup_path decrypted_path w) (\<lambda>_ w1.
           (Inr decrypted_path, w1)))
      else (Inr backup_path, w))"

definition restore_backup :: "env \<Rightarrow> path \<Rightarrow> world \<Rightarrow> unit result" where
  "restore_backup env backup_path w =
     (case
        and_then (decrypt_if_encrypted env backup_path w) (\<lambda>p w1.
        and_then (tar_open_r env p w1) (\<lambda>ms w2.
        and_then (extractall env ms w2) (\<lambda>_ w3.
        and_then (restart_kamailio env w3) (\<lambda>_ w4.
          (Inr (), log_msg INFO (''System restored from backup: '' @ p) w4)))))
      of (Inl e, w') \<Rightarrow> (Inl e, log_exc ERROR ''Backup restoration failed: '' e w')
       | (Inr u, w') \<Rightarrow> (Inr u, w'))"

subsection \<open>\<^verbatim>\<open>load_recovery_config\<close>\<close>

text \<open>What \<^verbatim>\<open>json.load\<close> returns.\<close>

datatype json =
    JNull
  | JBool bool
  | JNumber int
  | JString string
  | JArray "json list"
  | JObject "(string \<times> json) list"

text \<open>
  What \<^verbatim>\<open>open(config_path, 'r')\<close> followed by \<^verbatim>\<open>json.load\<close> meets: no file, a file
  that cannot be opened or read, text that is not JSON, or a JSON value.
\<close>

datatype config_file = NoFile | Unreadable | NotJSON | Parsed json

definition get_default_config :: json where
  "get_default_config = JObject
     [(''backup_directory'', JString ''/var/backups/kamailio''),
      (''backup_retention_days'', JNumber 30),
      (''backup_type'', JString ''full''),
      (''components_to_backup'',
         JArray [JString ''/etc/kamailio'', JString ''/var/lib/kamailio'',
                 JString ''/var/log/kamailio'']),
      (''remote_backup'', JObject
         [(''enabled'', JBool False), (''type'', JString ''s3''), (''bucket'', JString []),
          (''access_key'', JString []), (''secret_key'', JString [])]),
      (''encryption'', JObject [(''enabled'', JBool True), (''method'', JString ''gpg'')])]"

text \<open>
  Python's \<^verbatim>\<open>key in config\<close>: a key of a dictionary, an element of a list, a substring
  of a string, and a \<^verbatim>\<open>TypeError\<close> on a number, a boolean or \<^verbatim>\<open>None\<close>.
\<close>

fun is_substring :: "string \<Rightarrow> string \<Rightarrow> bool" where
  "is_substring k [] = (k = [])"
| "is_substring k (c # s) = (take (length k) (c # s) = k \<or> is_substring k s)"

definition py_in :: "string \<Rightarrow> json \<Rightarrow> error + bool" where
  "py_in k j =
     (case j of
        JObject kvs \<Rightarrow> Inr (k \<in> set (map fst kvs))
      | JArray xs \<Rightarrow> Inr (JString k \<in> set xs)
      | JString s \<Rightarrow> Inr (is_substring k s)
      | _ \<Rightarrow> Inl TypeError)"

definition required_keys :: "string list" where
  "required_keys =
     [''backup_directory'', ''backup_retention_days'', ''backup_type'', ''components_to_backup'']"

fun check_keys :: "string list \<Rightarrow> json \<Rightarrow> error + unit" where
  "check_keys [] j = Inr ()"
| "check_keys (key # keys) j =
     (case py_in key j of
        Inl e \<Rightarrow> Inl e
      | Inr present \<Rightarrow>
          if \<not> present then Inl (ValueError (''Missing required configuration key: '' @ key))
          else check_keys keys j)"

definition validate_config :: "json \<Rightarrow> error + unit" where
  "validate_config j = check_keys required_keys j"

definition load_recovery_config :: "config_file \<Rightarrow> path \<Rightarrow> world \<Rightarrow> json result" where
  "load_recovery_config cf config_path w =
     (case cf of
        NoFile \<Rightarrow>
          (Inr get_default_config,
           log_msg WARNING (''Recovery config not found at '' @ config_path @ ''. Using defaults.'') w)
      | Unreadable \<Rightarrow> (Inl (OSError config_path), w)
      | NotJSON \<Rightarrow>
          (Inr get_default_config, log_msg ERROR (''Invalid JSON in '' @ config_path) w)
      | Parsed j \<Rightarrow>
          (case validate_config j of
             Inl e \<Rightarrow> (Inl e, w)
           | Inr u \<Rightarrow> (Inr j, w)))"

section \<open>Notions used in the statements\<close>

text \<open>
  The components \<^verbatim>\<open>tar.add\<close> stores in the archive at \<open>ap\<close>, read in the world \<open>w\<close>:
  those that exist, are not the archive itself and are of a type an archive can hold.
\<close>

definition stored :: "world \<Rightarrow> path \<Rightarrow> path \<Rightarrow> bool" where
  "stored w ap c \<longleftrightarrow>
     c \<noteq> ap \<and> (case lookup w c of None \<Rightarrow> False | Some n \<Rightarrow> fst n \<noteq> Socket)"

text \<open>
  The members the archive at \<open>ap\<close> of the components \<open>cs\<close> is to hold: every stored
  component, in the order configured, under its base name.
\<close>

definition members_of :: "world \<Rightarrow> path \<Rightarrow> string list \<Rightarrow> member list" where
  "members_of w ap cs = map (\<lambda>c. (basename c, the (lookup w c))) (filter (stored w ap) cs)"

text \<open>
  The warnings for the components that do not exist, in the order configured. (The
  archive's own path exists by the time the components are looked at.)
\<close>

definition missing_warnings :: "world \<Rightarrow> path \<Rightarrow> string list \<Rightarrow> log_entry list" where
  "missing_warnings w ap cs =
     map (\<lambda>c. Log WARNING (''Backup component not found: '' @ c) None)
       (filter (\<lambda>c. c \<noteq> ap \<and> lookup w c = None) cs)"

text \<open>The paths \<open>extractall\<close> writes when it unpacks a file of content \<open>c\<close>.\<close>

definition extract_targets :: "content \<Rightarrow> path list" where
  "extract_targets c =
     (case archive_members c of
        Some ms \<Rightarrow> map (\<lambda>m. path_join ''/'' (fst m)) ms
      | None \<Rightarrow> [])"

text \<open>The file table after every member of \<open>ms\<close> has been unpacked, in order.\<close>

definition unpacked :: "member list \<Rightarrow> (path \<times> fnode) list \<Rightarrow> (path \<times> fnode) list" where
  "unpacked ms fs = fold (\<lambda>m. AList.update (path_join ''/'' (fst m)) (snd m)) ms fs"

text \<open>The part of \<open>restore_backup\<close> that follows the decryption, as one step.\<close>

definition unpack_and_restart :: "env \<Rightarrow> path \<Rightarrow> world \<Rightarrow> unit result" where
  "unpack_and_restart env p w1 =
     and_then (tar_open_r env p w1) (\<lambda>ms w2.
     and_then (extractall env ms w2) (\<lambda>_ w3.
     and_then (restart_kamailio env w3) (\<lambda>_ w4.
       (Inr (), log_msg INFO (''System restored from backup: '' @ p) w4))))"


section \<open>Concrete runs\<close>

text \<open>An environment in which every system call and every external program succeeds.\<close>

definition env_ok :: env where
  "env_ok = \<lparr>now = 739251 * 86400000000, strftime = (\<lambda>_. ''20250101_000000''),
     environ_key = None, open_fails = (\<lambda>_. False), add_fails = (\<lambda>_. False),
     close_fails = (\<lambda>_. False), flushed = (\<lambda>_. 0),
     remove_fails = (\<lambda>_. False), stat_fails = (\<lambda>_. False), listdir_fails = (\<lambda>_. False),
     extract_fails = (\<lambda>_. False), gpg_encrypt_status = (\<lambda>_. Exited0),
     gpg_decrypt_status = (\<lambda>_. Exited0), aws_status = (\<lambda>_. Exited0),
     systemctl_status = Exited0\<rparr>"

text \<open>The archive path of a full backup made at the time of \<open>env_ok\<close> into \<^verbatim>\<open>/b\<close>.\<close>

definition ap_ex :: path where
  "ap_ex = ''/b/kamailio_backup_full_20250101_000000.tar.gz''"

text \<open>A configuration without encryption and replication; one component is missing.\<close>

definition cfg_plain :: config where
  "cfg_plain = \<lparr>backup_directory = Some ''/b'', backup_retention_days = Some 30,
     backup_type = Some ''full'', components_to_backup = [''/etc/kamailio'', ''/missing''],
     remote_backup = None, encryption = None\<rparr>"

definition w_one :: world where
  "w_one = \<lparr>files = [(''/etc/kamailio'', (Opaque ''cfg'', 5))], logs = [], calls = []\<rparr>"

text \<open>Two components that exist; the disk fills up while the second is archived.\<close>

definition cfg_two :: config where
  "cfg_two = \<lparr>backup_directory = Some ''/b'', backup_retention_days = Some 30,
     backup_type = Some ''full'',
     components_to_backup = [''/etc/kamailio'', ''/var/lib/kamailio''],
     remote_backup = None, encryption = None\<rparr>"

definition w_two :: world where
  "w_two = \<lparr>files = [(''/etc/kamailio'', (Opaque ''cfg'', 5)),
                       (''/var/lib/kamailio'', (Opaque ''db'', 7))],
             logs = [], calls = []\<rparr>"

definition env_disk_full :: env where
  "env_disk_full = env_ok\<lparr>add_fails := (\<lambda>p. p = ''/var/lib/kamailio'')\<rparr>"

text \<open>Encryption with \<^verbatim>\<open>gpg\<close> switched on, alone and with replication to S3.\<close>

definition cfg_enc :: config where
  "cfg_enc = cfg_plain\<lparr>encryption := Some \<lparr>enc_enabled = Some True, enc_method = Some ''gpg''\<rparr>\<rparr>"

definition cfg_enc_remote :: config where
  "cfg_enc_remote = cfg_enc\<lparr>remote_backup :=
     Some \<lparr>rem_enabled = Some True, rem_type = Some ''s3'', bucket = Some ''offsite'',
           access_key = Some ''AK'', secret_key = Some ''SK''\<rparr>\<rparr>"

text \<open>\<^verbatim>\<open>gpg\<close> runs and reports an error; \<^verbatim>\<open>gpg\<close> is not installed.\<close>

definition env_gpg_error :: env where
  "env_gpg_error = env_ok\<lparr>gpg_encrypt_status := (\<lambda>_. ExitedNonZero)\<rparr>"

definition env_no_gpg :: env where
  "env_no_gpg = env_ok\<lparr>gpg_encrypt_status := (\<lambda>_. NotStarted)\<rparr>"

text \<open>
  A backup store with artifacts aged 10, 45, 31, 29 and 30 days at the time of \<open>env_ok\<close>,
  listed in that order, and a file outside the store.
\<close>

definition w_store :: world where
  "w_store = \<lparr>files =
      [(''/b/k10.tar.gz'', (Opaque ''10'', 739241 * 86400000000)),
       (''/b/k45.tar.gz'', (Opaque ''45'', 739206 * 86400000000)),
       (''/b/k31.tar.gz'', (Opaque ''31'', 739220 * 86400000000)),
       (''/b/k29.tar.gz'', (Opaque ''29'', 739222 * 86400000000)),
       (''/b/k30.tar.gz'', (Opaque ''30'', 739221 * 86400000000)),
       (''/etc/kamailio'', (Opaque ''cfg'', 5))],
     logs = [], calls = []\<rparr>"

text \<open>The same configuration with a retention window of 29 days.\<close>

definition cfg_29_days :: config where
  "cfg_29_days = cfg_plain\<lparr>backup_retention_days := Some 29\<rparr>"

text \<open>The first entry listed cannot be examined; the third cannot be deleted.\<close>

definition env_stat_denied :: env where
  "env_stat_denied = env_ok\<lparr>stat_fails := (\<lambda>p. p = ''/b/k10.tar.gz'')\<rparr>"

definition env_remove_denied :: env where
  "env_remove_denied = env_ok\<lparr>remove_fails := (\<lambda>p. p = ''/b/k31.tar.gz'')\<rparr>"

text \<open>
  A store with one plain artifact and one encrypted under the passphrase \<^verbatim>\<open>secret\<close>;
  \<open>env_ok\<close> has no passphrase variable, so \<^verbatim>\<open>default_key\<close> is used.
\<close>

definition w_artifacts :: world where
  "w_artifacts = \<lparr>files =
      [(''/b/x.tar.gz'', (TarGz [(''kamailio'', Opaque ''cfg'', 5)], 9)),
       (''/b/y.tar.gz.gpg'', (Gpg ''secret'' (TarGz [(''kamailio'', Opaque ''cfg'', 5)]), 9))],
     logs = [], calls = []\<rparr>"

text \<open>The passphrase variable holds \<^verbatim>\<open>secret\<close>; the service does not come up again.\<close>

definition env_secret :: env where
  "env_secret = env_ok\<lparr>environ_key := Some ''secret''\<rparr>"

definition env_restart_fails :: env where
  "env_restart_fails = env_ok\<lparr>systemctl_status := ExitedNonZero\<rparr>"

text \<open>
  The components include the archive's own path, the control socket of the server and a
  path that does not exist; encryption is enabled with a method other than \<^verbatim>\<open>gpg\<close>.
\<close>

definition cfg_socket :: config where
  "cfg_socket = \<lparr>backup_directory = Some ''/b'', backup_retention_days = Some 30,
     backup_type = Some ''full'',
     components_to_backup =
       [''/etc/kamailio'', ''/b/kamailio_backup_full_20250101_000000.tar.gz'',
        ''/run/kamailio/kamailio_ctl'', ''/missing''],
     remote_backup = None,
     encryption = Some \<lparr>enc_enabled = Some True, enc_method = Some ''aes''\<rparr>\<rparr>"

definition w_socket :: world where
  "w_socket = \<lparr>files = [(''/etc/kamailio'', (Opaque ''cfg'', 5)),
                          (''/run/kamailio/kamailio_ctl'', (Socket, 7))],
                logs = [], calls = []\<rparr>"

text \<open>Two components that exist, the second the control socket; no encryption.\<close>

definition cfg_ctl :: config where
  "cfg_ctl = cfg_plain\<lparr>components_to_backup :=
               [''/etc/kamailio'', ''/run/kamailio/kamailio_ctl'']\<rparr>"

text \<open>An encrypted archive with a member that unpacks onto the path of its decrypted copy.\<close>

definition w_overwrite :: world where
  "w_overwrite = \<lparr>files =
      [(''/b/y.tar.gz.gpg'', (Gpg ''secret'' (TarGz [(''b/y.tar.gz'', Opaque ''old'', 3)]), 9))],
     logs = [], calls = []\<rparr>"

text \<open>Two archives that were not closed: one with a whole member, one without any.\<close>

definition w_unterminated :: world where
  "w_unterminated = \<lparr>files =
      [(''/b/p.tar.gz'', (PartialTarGz [(''kamailio'', Opaque ''cfg'', 5)], 9)),
       (''/b/e.tar.gz'', (PartialTarGz [], 9))],
     logs = [], calls = []\<rparr>"


section \<open>Properties of the model\<close>

subsection \<open>Files, log and sequencing\<close>

lemma lookup_write_file [simp]:
  "lookup (write_file p c t w) q = (if q = p then Some (c, t) else lookup w q)"
  by (simp add: lookup_def write_file_def update_conv')

lemma lookup_delete_file [simp]:
  "lookup (delete_file p w) q = (if q = p then None else lookup w q)"
  by (simp add: lookup_def delete_file_def delete_conv')

lemma lookup_log_msg [simp]: "lookup (log_msg l m w) q = lookup w q"
  by (simp add: lookup_def log_msg_def)

lemma lookup_log_exc [simp]: "lookup (log_exc l m e w) q = lookup w q"
  by (simp add: lookup_def log_exc_def)

lemma lookup_record_call [simp]: "lookup (record_call c w) q = lookup w q"
  by (simp add: lookup_def record_call_def)

lemma logs_simps [simp]:
  "logs (write_file p c t w) = logs w"
  "logs (delete_file p w) = logs w"
  "logs (record_call k w) = logs w"
  "logs (log_msg l m w) = logs w @ [Log l m None]"
  "logs (log_exc l m e w) = logs w @ [Log l m (Some e)]"
  by (simp_all add: write_file_def delete_file_def record_call_def log_msg_def log_exc_def)

lemma calls_simps [simp]:
  "calls (write_file p c t w) = calls w"
  "calls (delete_file p w) = calls w"
  "calls (record_call k w) = calls w @ [k]"
  "calls (log_msg l m w) = calls w"
  "calls (log_exc l m e w) = calls w"
  by (simp_all add: write_file_def delete_file_def record_call_def log_msg_def log_exc_def)

lemma files_simps [simp]:
  "files (record_call k w) = files w"
  "files (log_msg l m w) = files w"
  "files (log_exc l m e w) = files w"
  by (simp_all add: record_call_def log_msg_def log_exc_def)

lemma and_then_Inr [simp]: "and_then (Inr x, w) f = f x w"
  by (simp add: and_then_def)

lemma and_then_Inl [simp]: "and_then (Inl e, w) f = (Inl e, w)"
  by (simp add: and_then_def)

subsection \<open>Building the archive\<close>

lemma members_of_simps [simp]:
  "members_of w ap [] = []"
  "members_of w ap (c # cs) =
     (if stored w ap c then (basename c, the (lookup w c)) # members_of w ap cs
      else members_of w ap cs)"
  by (simp_all add: members_of_def)

lemma missing_warnings_simps [simp]:
  "missing_warnings w ap [] = []"
  "missing_warnings w ap (c # cs) =
     (if c \<noteq> ap \<and> lookup w c = None
      then Log WARNING (''Backup component not found: '' @ c) None # missing_warnings w ap cs
      else missing_warnings w ap cs)"
  by (simp_all add: missing_warnings_def)

lemma stored_cong:
  "c \<noteq> ap \<longrightarrow> lookup w' c = lookup w c \<Longrightarrow> stored w' ap c = stored w ap c"
  by (auto simp: stored_def)

lemma members_of_cong:
  "(\<And>c. c \<in> set cs \<Longrightarrow> c \<noteq> ap \<Longrightarrow> lookup w' c = lookup w c) \<Longrightarrow>
     members_of w' ap cs = members_of w ap cs"
proof (induction cs)
  case Nil
  then show ?case by simp
next
  case (Cons c cs)
  have s: "stored w' ap c = stored w ap c" by (rule stored_cong) (simp add: Cons.prems)
  have l: "stored w ap c \<Longrightarrow> lookup w' c = lookup w c"
    using Cons.prems [of c] by (simp add: stored_def)
  have "members_of w' ap cs = members_of w ap cs"
    by (rule Cons.IH) (simp add: Cons.prems)
  then show ?case using s l by simp
qed

lemma missing_warnings_cong:
  "(\<And>c. c \<in> set cs \<Longrightarrow> c \<noteq> ap \<Longrightarrow> lookup w' c = lookup w c) \<Longrightarrow>
     missing_warnings w' ap cs = missing_warnings w ap cs"
proof (induction cs)
  case Nil
  then show ?case by simp
next
  case (Cons c cs)
  have "missing_warnings w' ap cs = missing_warnings w ap cs"
    by (rule Cons.IH) (simp add: Cons.prems)
  moreover have "c \<noteq> ap \<Longrightarrow> lookup w' c = lookup w c" using Cons.prems [of c] by simp
  ultimately show ?case by (cases "c = ap") simp_all
qed

lemma missing_warning_logged:
  "c \<in> set cs \<Longrightarrow> c \<noteq> ap \<Longrightarrow> lookup w c = None \<Longrightarrow>
     Log WARNING (''Backup component not found: '' @ c) None \<in> set (missing_warnings w ap cs)"
  unfolding missing_warnings_def set_map by (rule image_eqI [where x = c]) simp_all

lemma add_components_ok:
  assumes "lookup w ap \<noteq> None"
    and "\<forall>c\<in>set cs. c \<noteq> ap \<longrightarrow> lookup w c \<noteq> None \<longrightarrow> \<not> add_fails env c"
  shows "\<exists>w'. add_components env ap cs ms w = (Inr (ms @ members_of w ap cs), w')
           \<and> (\<forall>q. q \<noteq> ap \<longrightarrow> lookup w' q = lookup w q)
           \<and> logs w' = logs w @ missing_warnings w ap cs
           \<and> calls w' = calls w"
  using assms
proof (induction cs arbitrary: ms w)
  case Nil
  then show ?case by simp
next
  case (Cons c cs)
  have rest: "\<forall>c\<in>set cs. c \<noteq> ap \<longrightarrow> lookup w c \<noteq> None \<longrightarrow> \<not> add_fails env c"
    using Cons.prems(2) by simp
  from Cons.IH [OF Cons.prems(1) rest, of ms] obtain wk where
    wk: "add_components env ap cs ms w = (Inr (ms @ members_of w ap cs), wk)"
      "\<forall>q. q \<noteq> ap \<longrightarrow> lookup wk q = lookup w q"
      "logs wk = logs w @ missing_warnings w ap cs" "calls wk = calls w"
    by blast
  show ?case
  proof (cases "c = ap")
    case True
    with Cons.prems(1) obtain n where "lookup w c = Some n" by auto
    then show ?thesis using True wk by (simp add: stored_def)
  next
    case ne: False
    show ?thesis
    proof (cases "lookup w c")
      case None
      let ?w1 = "log_msg WARNING (''Backup component not found: '' @ c) w"
      have a: "lookup ?w1 ap \<noteq> None" using Cons.prems(1) by simp
      have b: "\<forall>c\<in>set cs. c \<noteq> ap \<longrightarrow> lookup ?w1 c \<noteq> None \<longrightarrow> \<not> add_fails env c"
        using rest by simp
      from Cons.IH [OF a b, of ms] obtain w' where
        w': "add_components env ap cs ms ?w1 = (Inr (ms @ members_of ?w1 ap cs), w')"
          "\<forall>q. q \<noteq> ap \<longrightarrow> lookup w' q = lookup ?w1 q"
          "logs w' = logs ?w1 @ missing_warnings ?w1 ap cs" "calls w' = calls ?w1"
        by blast
      have m: "members_of ?w1 ap cs = members_of w ap cs" by (rule members_of_cong) simp
      have g: "missing_warnings ?w1 ap cs = missing_warnings w ap cs"
        by (rule missing_warnings_cong) simp
      show ?thesis using None ne w' m g by (simp add: stored_def)
    next
      case (Some n)
      have nf: "\<not> add_fails env c" using Cons.prems(2) Some ne by simp
      show ?thesis
      proof (cases "fst n = Socket")
        case True
        then show ?thesis using Some ne nf wk by (simp add: stored_def)
      next
        case False
        let ?m = "(basename c, n)"
        let ?w1 = "write_file ap (PartialTarGz (ms @ [?m])) (now env) w"
        have a: "lookup ?w1 ap \<noteq> None" by simp
        have same: "\<And>d. d \<noteq> ap \<Longrightarrow> lookup ?w1 d = lookup w d" by simp
        have b: "\<forall>c\<in>set cs. c \<noteq> ap \<longrightarrow> lookup ?w1 c \<noteq> None \<longrightarrow> \<not> add_fails env c"
          using rest by simp
        from Cons.IH [OF a b, of "ms @ [?m]"] obtain w' where
          w': "add_components env ap cs (ms @ [?m]) ?w1
                 = (Inr ((ms @ [?m]) @ members_of ?w1 ap cs), w')"
            "\<forall>q. q \<noteq> ap \<longrightarrow> lookup w' q = lookup ?w1 q"
            "logs w' = logs ?w1 @ missing_warnings ?w1 ap cs" "calls w' = calls ?w1"
          by blast
        have m: "members_of ?w1 ap cs = members_of w ap cs"
          by (rule members_of_cong) (rule same)
        have g: "missing_warnings ?w1 ap cs = missing_warnings w ap cs"
          by (rule missing_warnings_cong) (rule same)
        show ?thesis using Some ne nf False w' m g by (simp add: stored_def)
      qed
    qed
  qed
qed

lemma build_archive_ok:
  assumes "\<not> open_fails env ap"
    and "\<not> close_fails env ap"
    and "\<forall>c\<in>set cs. c \<noteq> ap \<longrightarrow> lookup w c \<noteq> None \<longrightarrow> \<not> add_fails env c"
  shows "\<exists>w'. build_archive env cs ap w = (Inr (), w')
           \<and> lookup w' ap = Some (TarGz (members_of w ap cs), now env)
           \<and> (\<forall>q. q \<noteq> ap \<longrightarrow> lookup w' q = lookup w q)
           \<and> logs w' = logs w @ missing_warnings w ap cs
           \<and> calls w' = calls w"
proof -
  let ?w1 = "write_file ap (PartialTarGz []) (now env) w"
  have same: "\<And>d. d \<noteq> ap \<Longrightarrow> lookup ?w1 d = lookup w d" by simp
  have a: "lookup ?w1 ap \<noteq> None" by simp
  have b: "\<forall>c\<in>set cs. c \<noteq> ap \<longrightarrow> lookup ?w1 c \<noteq> None \<longrightarrow> \<not> add_fails env c"
    using assms(3) by simp
  from add_components_ok [OF a b, of "[]"] obtain w2 where
    w2: "add_components env ap cs [] ?w1 = (Inr (members_of ?w1 ap cs), w2)"
      "\<forall>q. q \<noteq> ap \<longrightarrow> lookup w2 q = lookup ?w1 q"
      "logs w2 = logs ?w1 @ missing_warnings ?w1 ap cs" "calls w2 = calls ?w1"
    by auto
  have m: "members_of ?w1 ap cs = members_of w ap cs" by (rule members_of_cong) (rule same)
  have g: "missing_warnings ?w1 ap cs = missing_warnings w ap cs"
    by (rule missing_warnings_cong) (rule same)
  show ?thesis
    using assms(1,2) w2 m g by (simp add: build_archive_def tar_open_w_def tar_close_def)
qed

subsection \<open>Encryption, upload and the whole run\<close>

lemma gpg_suffix_neq [simp]: "ap @ ''.gpg'' \<noteq> ap" "ap \<noteq> ap @ ''.gpg''"
  by simp_all

lemma encrypt_stage:
  assumes "lookup w1 ap = Some (c, t)"
    and "encryption_method cfg = ''gpg'' \<longrightarrow>
           gpg_encrypt_status env ap \<noteq> NotStarted
           \<and> (gpg_encrypt_status env ap = Exited0 \<longrightarrow> \<not> remove_fails env ap)"
  shows "\<exists>w2. encrypt_backup cfg env ap w1 = (Inr (), w2)
           \<and> (if encryption_method cfg = ''gpg'' \<and> gpg_encrypt_status env ap = Exited0
               then lookup w2 ap = None
                 \<and> lookup w2 (ap @ ''.gpg'') = Some (Gpg (passphrase env) c, now env)
               else lookup w2 ap = Some (c, t)
                 \<and> lookup w2 (ap @ ''.gpg'') = lookup w1 (ap @ ''.gpg''))
           \<and> (\<forall>q. q \<noteq> ap \<and> q \<noteq> ap @ ''.gpg'' \<longrightarrow> lookup w2 q = lookup w1 q)
           \<and> set (logs w1) \<subseteq> set (logs w2)
           \<and> (encryption_method cfg = ''gpg'' \<and> gpg_encrypt_status env ap = ExitedNonZero \<longrightarrow>
                Log ERROR ''Backup encryption failed: '' (Some (CalledProcessError ''gpg''))
                  \<in> set (logs w2))"
proof (cases "encryption_method cfg = ''gpg''")
  case False
  then show ?thesis using assms(1) by (simp add: encrypt_backup_def)
next
  case True
  then consider "gpg_encrypt_status env ap = ExitedNonZero"
    | "gpg_encrypt_status env ap = Exited0" "\<not> remove_fails env ap"
    using assms(2) by (cases "gpg_encrypt_status env ap") auto
  then show ?thesis
  proof cases
    case 1
    then show ?thesis
      using True assms(1) by (auto simp: encrypt_backup_def gpg_symmetric_def Let_def)
  next
    case 2
    then show ?thesis
      using True assms(1)
      by (auto simp: encrypt_backup_def gpg_symmetric_def Let_def os_remove_def)
  qed
qed

lemma upload_stage:
  assumes "rem_type (remote_config cfg) = Some ''s3'' \<longrightarrow>
             bucket (remote_config cfg) \<noteq> None \<and> access_key (remote_config cfg) \<noteq> None
             \<and> secret_key (remote_config cfg) \<noteq> None \<and> aws_status env ap \<noteq> NotStarted"
  shows "\<exists>w3. upload_remote_backup cfg env ap w2 = (Inr (), w3)
           \<and> files w3 = files w2 \<and> set (logs w2) \<subseteq> set (logs w3)"
proof (cases "rem_type (remote_config cfg) = Some ''s3''")
  case False
  then show ?thesis by (simp add: upload_remote_backup_def Let_def)
next
  case True
  with assms obtain b ak sk where
    "bucket (remote_config cfg) = Some b" "access_key (remote_config cfg) = Some ak"
    "secret_key (remote_config cfg) = Some sk" "aws_status env ap \<noteq> NotStarted"
    by auto
  then show ?thesis
    using True
    by (cases "aws_status env ap") (auto simp: upload_remote_backup_def Let_def)
qed

lemma create_backup_completes:
  assumes ap: "backup_path_of cfg env arg = ap"
    and comps: "components_to_backup cfg = comps"
    and opn: "\<not> open_fails env ap"
    and cls: "\<not> close_fails env ap"
    and adds: "\<forall>c\<in>set comps. c \<noteq> ap \<longrightarrow> path_exists w c \<longrightarrow> \<not> add_fails env c"
    and enc: "encryption_enabled cfg \<and> encryption_method cfg = ''gpg'' \<longrightarrow>
           gpg_encrypt_status env ap \<noteq> NotStarted
           \<and> (gpg_encrypt_status env ap = Exited0 \<longrightarrow> \<not> remove_fails env ap)"
    and rem: "remote_enabled cfg \<and> rem_type (remote_config cfg) = Some ''s3'' \<longrightarrow>
             bucket (remote_config cfg) \<noteq> None \<and> access_key (remote_config cfg) \<noteq> None
             \<and> secret_key (remote_config cfg) \<noteq> None \<and> aws_status env ap \<noteq> NotStarted"
  shows "\<exists>w'. create_backup cfg env arg w = (Inr ap, w')
           \<and> (if encryption_enabled cfg \<and> encryption_method cfg = ''gpg''
                  \<and> gpg_encrypt_status env ap = Exited0
               then lookup w' ap = None
                 \<and> lookup w' (ap @ ''.gpg'')
                     = Some (Gpg (passphrase env) (TarGz (members_of w ap comps)), now env)
               else lookup w' ap = Some (TarGz (members_of w ap comps), now env)
                 \<and> lookup w' (ap @ ''.gpg'') = lookup w (ap @ ''.gpg''))
           \<and> (\<forall>q. q \<noteq> ap \<and> q \<noteq> ap @ ''.gpg'' \<longrightarrow> lookup w' q = lookup w q)
           \<and> (\<forall>c\<in>set comps. c \<noteq> ap \<and> \<not> path_exists w c \<longrightarrow>
                 Log WARNING (''Backup component not found: '' @ c) None \<in> set (logs w'))
           \<and> (encryption_enabled cfg \<and> encryption_method cfg = ''gpg''
                  \<and> gpg_encrypt_status env ap = ExitedNonZero \<longrightarrow>
                Log ERROR ''Backup encryption failed: '' (Some (CalledProcessError ''gpg''))
                  \<in> set (logs w'))"
proof -
  let ?A = "TarGz (members_of w ap comps)"
  let ?E = "encryption_method cfg = ''gpg'' \<and> gpg_encrypt_status env ap = Exited0"
  have adds': "\<forall>c\<in>set comps. c \<noteq> ap \<longrightarrow> lookup w c \<noteq> None \<longrightarrow> \<not> add_fails env c"
    using adds by (simp add: path_exists_def)
  from build_archive_ok [OF opn cls adds'] obtain w1 where
    w1: "build_archive env comps ap w = (Inr (), w1)"
      "lookup w1 ap = Some (?A, now env)"
      "\<forall>q. q \<noteq> ap \<longrightarrow> lookup w1 q = lookup w q"
      "logs w1 = logs w @ missing_warnings w ap comps"
    by blast
  have warn: "\<forall>c\<in>set comps. c \<noteq> ap \<and> \<not> path_exists w c \<longrightarrow>
                 Log WARNING (''Backup component not found: '' @ c) None \<in> set (logs w1)"
  proof (intro ballI impI)
    fix c
    assume c: "c \<in> set comps" and n: "c \<noteq> ap \<and> \<not> path_exists w c"
    then have ne: "c \<noteq> ap" and "lookup w c = None" unfolding path_exists_def by blast+
    from missing_warning_logged [OF c this]
    show "Log WARNING (''Backup component not found: '' @ c) None \<in> set (logs w1)"
      unfolding w1(4) by simp
  qed
  let ?r2 = "if encryption_enabled cfg then encrypt_backup cfg env ap w1 else (Inr (), w1)"
  have "\<exists>w2. ?r2 = (Inr (), w2)
           \<and> (if encryption_enabled cfg \<and> ?E
               then lookup w2 ap = None
                 \<and> lookup w2 (ap @ ''.gpg'') = Some (Gpg (passphrase env) ?A, now env)
               else lookup w2 ap = Some (?A, now env)
                 \<and> lookup w2 (ap @ ''.gpg'') = lookup w1 (ap @ ''.gpg''))
           \<and> (\<forall>q. q \<noteq> ap \<and> q \<noteq> ap @ ''.gpg'' \<longrightarrow> lookup w2 q = lookup w1 q)
           \<and> set (logs w1) \<subseteq> set (logs w2)
           \<and> (encryption_enabled cfg \<and> encryption_method cfg = ''gpg''
                  \<and> gpg_encrypt_status env ap = ExitedNonZero \<longrightarrow>
                Log ERROR ''Backup encryption failed: '' (Some (CalledProcessError ''gpg''))
                  \<in> set (logs w2))"
  proof (cases "encryption_enabled cfg")
    case True
    with enc have "encryption_method cfg = ''gpg'' \<longrightarrow>
           gpg_encrypt_status env ap \<noteq> NotStarted
           \<and> (gpg_encrypt_status env ap = Exited0 \<longrightarrow> \<not> remove_fails env ap)" by simp
    from encrypt_stage [OF w1(2) this] True show ?thesis by simp
  next
    case False
    then show ?thesis using w1(2) by simp
  qed
  then obtain w2 where
    w2: "?r2 = (Inr (), w2)"
      "if encryption_enabled cfg \<and> ?E
               then lookup w2 ap = None
                 \<and> lookup w2 (ap @ ''.gpg'') = Some (Gpg (passphrase env) ?A, now env)
               else lookup w2 ap = Some (?A, now env)
                 \<and> lookup w2 (ap @ ''.gpg'') = lookup w1 (ap @ ''.gpg'')"
      "\<forall>q. q \<noteq> ap \<and> q \<noteq> ap @ ''.gpg'' \<longrightarrow> lookup w2 q = lookup w1 q"
      "set (logs w1) \<subseteq> set (logs w2)"
      "encryption_enabled cfg \<and> encryption_method cfg = ''gpg''
                  \<and> gpg_encrypt_status env ap = ExitedNonZero \<longrightarrow>
                Log ERROR ''Backup encryption failed: '' (Some (CalledProcessError ''gpg''))
                  \<in> set (logs w2)"
    by blast
  let ?r3 = "if remote_enabled cfg then upload_remote_backup cfg env ap w2 else (Inr (), w2)"
  have "\<exists>w3. ?r3 = (Inr (), w3) \<and> files w3 = files w2 \<and> set (logs w2) \<subseteq> set (logs w3)"
  proof (cases "remote_enabled cfg")
    case True
    with rem have "rem_type (remote_config cfg) = Some ''s3'' \<longrightarrow>
             bucket (remote_config cfg) \<noteq> None \<and> access_key (remote_config cfg) \<noteq> None
             \<and> secret_key (remote_config cfg) \<noteq> None \<and> aws_status env ap \<noteq> NotStarted" by simp
    from upload_stage [OF this] True show ?thesis by simp
  next
    case False
    then show ?thesis by simp
  qed
  then obtain w3 where
    w3: "?r3 = (Inr (), w3)" "files w3 = files w2" "set (logs w2) \<subseteq> set (logs w3)"
    by blast
  let ?w' = "log_msg INFO (''Backup created: '' @ ap) w3"
  have run: "create_backup cfg env arg w = (Inr ap, ?w')"
    by (simp only: create_backup_def Let_def ap comps w1(1) and_then_Inr w2(1) w3(1)
          prod.case sum.case)
  have l3: "\<And>q. lookup ?w' q = lookup w2 q"
    by (simp add: lookup_def w3(2))
  have gp: "lookup w1 (ap @ ''.gpg'') = lookup w (ap @ ''.gpg'')"
    using w1(3) by simp
  have a: "if encryption_enabled cfg \<and> ?E
               then lookup ?w' ap = None
                 \<and> lookup ?w' (ap @ ''.gpg'') = Some (Gpg (passphrase env) ?A, now env)
               else lookup ?w' ap = Some (?A, now env)
                 \<and> lookup ?w' (ap @ ''.gpg'') = lookup w (ap @ ''.gpg'')"
    using w2(2) gp by (simp only: l3)
  have b: "\<forall>q. q \<noteq> ap \<and> q \<noteq> ap @ ''.gpg'' \<longrightarrow> lookup ?w' q = lookup w q"
    using w2(3) w1(3) by (simp only: l3) simp
  have c: "\<forall>c\<in>set comps. c \<noteq> ap \<and> \<not> path_exists w c \<longrightarrow>
                 Log WARNING (''Backup component not found: '' @ c) None \<in> set (logs ?w')"
    using warn w2(4) w3(3) by auto
  have d: "encryption_enabled cfg \<and> encryption_method cfg = ''gpg''
                  \<and> gpg_encrypt_status env ap = ExitedNonZero \<longrightarrow>
                Log ERROR ''Backup encryption failed: '' (Some (CalledProcessError ''gpg''))
                  \<in> set (logs ?w')"
    using w2(5) w3(3) by auto
  show ?thesis
    by (rule exI [of _ ?w']) (intro conjI run a b c d)
qed

lemma create_backup_gpg_not_started:
  assumes ap: "backup_path_of cfg env arg = ap"
    and comps: "components_to_backup cfg = comps"
    and opn: "\<not> open_fails env ap"
    and cls: "\<not> close_fails env ap"
    and adds: "\<forall>c\<in>set comps. c \<noteq> ap \<longrightarrow> path_exists w c \<longrightarrow> \<not> add_fails env c"
    and enabled: "encryption_enabled cfg"
    and gpg: "encryption_method cfg = ''gpg''"
    and ns: "gpg_encrypt_status env ap = NotStarted"
  shows "\<exists>w'. create_backup cfg env arg w = (Inl (OSError ''gpg''), w')
           \<and> lookup w' ap = Some (TarGz (members_of w ap comps), now env)
           \<and> (\<forall>q. q \<noteq> ap \<longrightarrow> lookup w' q = lookup w q)
           \<and> calls w' = calls w @ [GpgSymmetric (passphrase env) ap]
           \<and> last (logs w') = Log ERROR ''Backup creation failed: '' (Some (OSError ''gpg''))"
proof -
  have adds': "\<forall>c\<in>set comps. c \<noteq> ap \<longrightarrow> lookup w c \<noteq> None \<longrightarrow> \<not> add_fails env c"
    using adds by (simp add: path_exists_def)
  from build_archive_ok [OF opn cls adds'] obtain w1 where
    w1: "build_archive env comps ap w = (Inr (), w1)"
      "lookup w1 ap = Some (TarGz (members_of w ap comps), now env)"
      "\<forall>q. q \<noteq> ap \<longrightarrow> lookup w1 q = lookup w q"
      "calls w1 = calls w"
    by blast
  let ?w2 = "record_call (GpgSymmetric (passphrase env) ap) w1"
  let ?w' = "log_exc ERROR ''Backup creation failed: '' (OSError ''gpg'') ?w2"
  have e: "(if encryption_enabled cfg then encrypt_backup cfg env ap w1 else (Inr (), w1))
             = (Inl (OSError ''gpg''), ?w2)"
    using enabled gpg ns by (simp add: encrypt_backup_def gpg_symmetric_def Let_def)
  have run: "create_backup cfg env arg w = (Inl (OSError ''gpg''), ?w')"
    by (simp only: create_backup_def Let_def ap comps w1(1) and_then_Inr e and_then_Inl
          prod.case sum.case)
  have a: "lookup ?w' ap = Some (TarGz (members_of w ap comps), now env)" using w1(2) by simp
  have b: "\<forall>q. q \<noteq> ap \<longrightarrow> lookup ?w' q = lookup w q" using w1(3) by simp
  have c: "calls ?w' = calls w @ [GpgSymmetric (passphrase env) ap]" using w1(4) by simp
  have d: "last (logs ?w') = Log ERROR ''Backup creation failed: '' (Some (OSError ''gpg''))"
    by simp
  show ?thesis
    by (rule exI [of _ ?w']) (intro conjI run a b c d)
qed

subsection \<open>A failing archive\<close>

lemma add_components_fails:
  assumes "c \<in> set cs" "c \<noteq> ap" "lookup w c \<noteq> None" "add_fails env c"
  shows "\<exists>c' w'. add_components env ap cs ms w = (Inl (OSError c'), w')
           \<and> c' \<in> set cs \<and> add_fails env c'
           \<and> (\<forall>q. q \<noteq> ap \<longrightarrow> lookup w' q = lookup w q)
           \<and> (lookup w' ap = lookup w ap \<or> (\<exists>ms'. lookup w' ap = Some (PartialTarGz ms', now env)))
           \<and> calls w' = calls w"
  using assms
proof (induction cs arbitrary: ms w)
  case Nil
  then show ?case by simp
next
  case (Cons d cs)
  show ?case
  proof (cases "lookup w d")
    case None
    let ?w1 = "log_msg WARNING (''Backup component not found: '' @ d) w"
    from None Cons.prems have "c \<in> set cs" by auto
    moreover have "lookup ?w1 c \<noteq> None" using Cons.prems by simp
    ultimately obtain c' w' where
      "add_components env ap cs ms ?w1 = (Inl (OSError c'), w')" "c' \<in> set cs" "add_fails env c'"
      "\<forall>q. q \<noteq> ap \<longrightarrow> lookup w' q = lookup ?w1 q"
      "lookup w' ap = lookup ?w1 ap \<or> (\<exists>ms'. lookup w' ap = Some (PartialTarGz ms', now env))"
      "calls w' = calls ?w1"
      using Cons.IH [of ?w1 ms] Cons.prems(2,4) by blast
    then show ?thesis using None by auto
  next
    case (Some n)
    show ?thesis
    proof (cases "d = ap")
      case True
      with Cons.prems have "c \<in> set cs" by auto
      from Cons.IH [OF this Cons.prems(2,3,4), of ms] show ?thesis
        using Some True by auto
    next
      case False
      show ?thesis
      proof (cases "add_fails env d")
        case True
        then show ?thesis using Some False by auto
      next
        case nf: False
        show ?thesis
        proof (cases "fst n = Socket")
          case True
          from nf Cons.prems have "c \<in> set cs" by auto
          from Cons.IH [OF this Cons.prems(2,3,4), of ms] show ?thesis
            using Some False nf True by auto
        next
          case ns: False
        let ?m = "(basename d, n)"
        let ?w1 = "write_file ap (PartialTarGz (ms @ [?m])) (now env) w"
        from nf Cons.prems have "c \<in> set cs" by auto
        moreover have "lookup ?w1 c \<noteq> None" using Cons.prems by simp
        ultimately obtain c' w' where
          "add_components env ap cs (ms @ [?m]) ?w1 = (Inl (OSError c'), w')" "c' \<in> set cs"
          "add_fails env c'"
          "\<forall>q. q \<noteq> ap \<longrightarrow> lookup w' q = lookup ?w1 q"
          "lookup w' ap = lookup ?w1 ap \<or> (\<exists>ms'. lookup w' ap = Some (PartialTarGz ms', now env))"
          "calls w' = calls ?w1"
          using Cons.IH [of ?w1 "ms @ [?m]"] Cons.prems(2,4) by blast
        then show ?thesis using Some False nf ns by auto
        qed
      qed
    qed
  qed
qed

lemma build_archive_fails:
  assumes "open_fails env ap \<or> (\<exists>c\<in>set cs. c \<noteq> ap \<and> lookup w c \<noteq> None \<and> add_fails env c)"
  shows "\<exists>e w'. build_archive env cs ap w = (Inl e, w')
           \<and> (\<forall>q. q \<noteq> ap \<longrightarrow> lookup w' q = lookup w q)
           \<and> (if open_fails env ap then lookup w' ap = lookup w ap
               else \<exists>ms. lookup w' ap = Some (PartialTarGz ms, now env))
           \<and> calls w' = calls w"
proof (cases "open_fails env ap")
  case True
  then show ?thesis by (simp add: build_archive_def tar_open_w_def)
next
  case False
  let ?w1 = "write_file ap (PartialTarGz []) (now env) w"
  from False assms obtain c where c: "c \<in> set cs" "c \<noteq> ap" "lookup w c \<noteq> None" "add_fails env c"
    by blast
  then have "lookup ?w1 c \<noteq> None" by simp
  from add_components_fails [OF c(1,2) this c(4), of "[]"] obtain c' w' where
    w': "add_components env ap cs [] ?w1 = (Inl (OSError c'), w')"
      "\<forall>q. q \<noteq> ap \<longrightarrow> lookup w' q = lookup ?w1 q"
      "lookup w' ap = lookup ?w1 ap \<or> (\<exists>ms'. lookup w' ap = Some (PartialTarGz ms', now env))"
      "calls w' = calls ?w1"
    by blast
  have "\<exists>ms. lookup w' ap = Some (PartialTarGz ms, now env)"
    using w'(3) by auto
  then show ?thesis
    using False w' by (simp add: build_archive_def tar_open_w_def)
qed

text \<open>A close that fails: the run raises, and the file is left without its end.\<close>

lemma build_archive_close_fails:
  assumes "\<not> open_fails env ap"
    and "close_fails env ap"
    and "\<forall>c\<in>set cs. c \<noteq> ap \<longrightarrow> lookup w c \<noteq> None \<longrightarrow> \<not> add_fails env c"
  shows "\<exists>w'. build_archive env cs ap w = (Inl (OSError ap), w')
           \<and> lookup w' ap
               = Some (PartialTarGz (take (flushed env ap) (members_of w ap cs)), now env)
           \<and> (\<forall>q. q \<noteq> ap \<longrightarrow> lookup w' q = lookup w q)
           \<and> calls w' = calls w"
proof -
  let ?w1 = "write_file ap (PartialTarGz []) (now env) w"
  have same: "\<And>d. d \<noteq> ap \<Longrightarrow> lookup ?w1 d = lookup w d" by simp
  have a: "lookup ?w1 ap \<noteq> None" by simp
  have b: "\<forall>c\<in>set cs. c \<noteq> ap \<longrightarrow> lookup ?w1 c \<noteq> None \<longrightarrow> \<not> add_fails env c"
    using assms(3) by simp
  from add_components_ok [OF a b, of "[]"] obtain w2 where
    w2: "add_components env ap cs [] ?w1 = (Inr (members_of ?w1 ap cs), w2)"
      "\<forall>q. q \<noteq> ap \<longrightarrow> lookup w2 q = lookup ?w1 q"
      "calls w2 = calls ?w1"
    by auto
  have m: "members_of ?w1 ap cs = members_of w ap cs" by (rule members_of_cong) (rule same)
  show ?thesis
    using assms(1,2) w2 m by (simp add: build_archive_def tar_open_w_def tar_close_def)
qed

lemma create_backup_close_fails:
  assumes ap: "backup_path_of cfg env arg = ap"
    and opn: "\<not> open_fails env ap"
    and cls: "close_fails env ap"
    and adds: "\<forall>c\<in>set (components_to_backup cfg).
                 c \<noteq> ap \<longrightarrow> lookup w c \<noteq> None \<longrightarrow> \<not> add_fails env c"
  shows "\<exists>w'. create_backup cfg env arg w = (Inl (OSError ap), w')
           \<and> lookup w' ap
               = Some (PartialTarGz
                         (take (flushed env ap) (members_of w ap (components_to_backup cfg))),
                       now env)
           \<and> calls w' = calls w"
proof -
  from build_archive_close_fails [OF opn cls adds] obtain w1 where
    w1: "build_archive env (components_to_backup cfg) ap w = (Inl (OSError ap), w1)"
      "lookup w1 ap
         = Some (PartialTarGz
                   (take (flushed env ap) (members_of w ap (components_to_backup cfg))),
                 now env)"
      "calls w1 = calls w"
    by blast
  let ?w' = "log_exc ERROR ''Backup creation failed: '' (OSError ap) w1"
  have "create_backup cfg env arg w = (Inl (OSError ap), ?w')"
    by (simp only: create_backup_def Let_def ap w1(1) and_then_Inl prod.case sum.case)
  then show ?thesis using w1(2,3) by simp
qed

subsection \<open>The files a run leaves\<close>

lemma upload_keeps_files:
  "upload_remote_backup cfg env ap w = (r, w') \<Longrightarrow> files w' = files w"
  by (auto simp: upload_remote_backup_def Let_def split: if_splits option.splits proc_status.splits)

lemma create_backup_files_after_stages:
  assumes ap: "backup_path_of cfg env arg = ap"
    and comps: "components_to_backup cfg = comps"
    and w1: "build_archive env comps ap w = (Inr (), w1)"
    and w2: "(if encryption_enabled cfg then encrypt_backup cfg env ap w1 else (Inr (), w1))
               = (Inr (), w2)"
  shows "files (snd (create_backup cfg env arg w)) = files w2"
proof -
  let ?r3 = "if remote_enabled cfg then upload_remote_backup cfg env ap w2 else (Inr (), w2)"
  obtain r3 w3 where r3: "?r3 = (r3, w3)" by (cases ?r3)
  have f3: "files w3 = files w2"
  proof (cases "remote_enabled cfg")
    case True
    with r3 have "upload_remote_backup cfg env ap w2 = (r3, w3)" by simp
    then show ?thesis by (rule upload_keeps_files)
  next
    case False
    with r3 show ?thesis by simp
  qed
  show ?thesis
  proof (cases r3)
    case (Inl e)
    have "create_backup cfg env arg w = (Inl e, log_exc ERROR ''Backup creation failed: '' e w3)"
      using r3 unfolding Inl
      by (simp only: create_backup_def Let_def ap comps w1 and_then_Inr w2 and_then_Inl
            prod.case sum.case)
    then show ?thesis using f3 by simp
  next
    case (Inr u)
    have "create_backup cfg env arg w = (Inr ap, log_msg INFO (''Backup created: '' @ ap) w3)"
      using r3 unfolding Inr
      by (simp only: create_backup_def Let_def ap comps w1 and_then_Inr w2
            prod.case sum.case)
    then show ?thesis using f3 by simp
  qed
qed

subsection \<open>The retention pass\<close>

lemma child_name_join: "child_name d p = Some name \<Longrightarrow> path_join d name = p"
proof -
  assume a: "child_name d p = Some name"
  let ?pre = "dir_prefix d"
  from a have t: "take (length ?pre) p = ?pre" and n: "name = drop (length ?pre) p"
    and ne: "name \<noteq> []" and ns: "CHR ''/'' \<notin> set name"
    by (auto simp: child_name_def Let_def split: if_splits)
  from ne ns have "hd name \<noteq> CHR ''/''" by (cases name) auto
  then have "path_join d name = ?pre @ name"
    using ne by (simp add: path_join_def dir_prefix_def)
  also have "\<dots> = take (length ?pre) p @ drop (length ?pre) p" using t n by simp
  finally show ?thesis by simp
qed

lemma map_join_dir_entries:
  "map (path_join d) (List.map_filter (child_name d) ps) = filter (\<lambda>p. child_name d p \<noteq> None) ps"
  by (induction ps) (auto simp: map_filter_simps child_name_join split: option.splits)

lemma distinct_dir_entries: "distinct (map (path_join d) (dir_entries w d))"
  by (simp add: dir_entries_def map_join_dir_entries)

lemma dir_entries_exist:
  assumes "name \<in> set (dir_entries w d)"
  shows "lookup w (path_join d name) \<noteq> None"
proof -
  from assms obtain p where p: "p \<in> set (map fst (files w))" "child_name d p = Some name"
    by (force simp: dir_entries_def List.map_filter_def)
  then have "path_join d name = p" by (simp add: child_name_join)
  moreover from p(1) have "map_of (files w) p \<noteq> None"
    by (simp add: map_of_eq_None_iff)
  ultimately show ?thesis by (simp add: lookup_def)
qed

text \<open>Whatever happens, the loop only removes files, and only files older than the cutoff.\<close>

lemma rotate_loop_only_older:
  assumes "rotate_loop env cutoff dir names w = (r, w')"
  shows "lookup w' p = lookup w p
         \<or> (lookup w' p = None \<and> (\<exists>c t. lookup w p = Some (c, t) \<and> t < cutoff))"
  using assms
proof (induction names arbitrary: w)
  case Nil
  then show ?case by simp
next
  case (Cons f names)
  let ?bp = "path_join dir f"
  show ?case
  proof (cases "getmtime env ?bp w")
    case (Inl e)
    with Cons.prems show ?thesis by (simp add: Let_def)
  next
    case (Inr mt)
    then obtain c where c: "lookup w ?bp = Some (c, mt)"
      by (auto simp: getmtime_def split: option.splits if_splits)
    show ?thesis
    proof (cases "mt < cutoff")
      case False
      with Cons.prems Inr have "rotate_loop env cutoff dir names w = (r, w')"
        by (simp add: Let_def)
      from Cons.IH [OF this] show ?thesis .
    next
      case True
      show ?thesis
      proof (cases "remove_fails env ?bp")
        case True
        with Cons.prems Inr \<open>mt < cutoff\<close> c show ?thesis
          by (simp add: Let_def os_remove_def)
      next
        case False
        let ?w1 = "log_msg INFO (''Removed old backup: '' @ f) (delete_file ?bp w)"
        from Cons.prems Inr True False c
        have "rotate_loop env cutoff dir names ?w1 = (r, w')"
          by (simp add: Let_def os_remove_def)
        from Cons.IH [OF this]
        have "lookup w' p = lookup ?w1 p
              \<or> (lookup w' p = None \<and> (\<exists>c t. lookup ?w1 p = Some (c, t) \<and> t < cutoff))" .
        then show ?thesis using c True by (cases "p = ?bp") auto
      qed
    qed
  qed
qed

text \<open>With no failure, every listed entry is handled.\<close>

lemma rotate_loop_complete:
  assumes "distinct (map (path_join dir) names)"
    and "\<forall>name\<in>set names. lookup w (path_join dir name) \<noteq> None
            \<and> \<not> stat_fails env (path_join dir name) \<and> \<not> remove_fails env (path_join dir name)"
  shows "\<exists>w'. rotate_loop env cutoff dir names w = (Inr (), w')
           \<and> (\<forall>p. lookup w' p =
                 (if p \<in> path_join dir ` set names \<and> (\<exists>c t. lookup w p = Some (c, t) \<and> t < cutoff)
                  then None else lookup w p))
           \<and> calls w' = calls w"
  using assms
proof (induction names arbitrary: w)
  case Nil
  then show ?case by simp
next
  case (Cons f names)
  let ?bp = "path_join dir f"
  from Cons.prems obtain c mt where c: "lookup w ?bp = Some (c, mt)" by fastforce
  have sf: "\<not> stat_fails env ?bp" and rf: "\<not> remove_fails env ?bp" using Cons.prems by auto
  have gm: "getmtime env ?bp w = Inr mt" using c sf by (simp add: getmtime_def)
  have notin: "?bp \<notin> path_join dir ` set names" using Cons.prems(1) by auto
  have d: "distinct (map (path_join dir) names)" using Cons.prems(1) by simp
  have ne: "\<And>name. name \<in> set names \<Longrightarrow> path_join dir name \<noteq> ?bp"
    using notin by (metis imageI)
  show ?case
  proof (cases "mt < cutoff")
    case False
    have "\<forall>name\<in>set names. lookup w (path_join dir name) \<noteq> None
            \<and> \<not> stat_fails env (path_join dir name) \<and> \<not> remove_fails env (path_join dir name)"
      using Cons.prems(2) by simp
    from Cons.IH [OF d this] obtain w' where
      w': "rotate_loop env cutoff dir names w = (Inr (), w')"
        "\<forall>p. lookup w' p =
                 (if p \<in> path_join dir ` set names \<and> (\<exists>c t. lookup w p = Some (c, t) \<and> t < cutoff)
                  then None else lookup w p)"
        "calls w' = calls w"
      by blast
    have "rotate_loop env cutoff dir (f # names) w = (Inr (), w')"
      using gm False w'(1) by (simp add: Let_def)
    moreover have "\<forall>p. lookup w' p =
                 (if p \<in> path_join dir ` set (f # names) \<and> (\<exists>c t. lookup w p = Some (c, t) \<and> t < cutoff)
                  then None else lookup w p)"
      using w'(2) c False by auto
    ultimately show ?thesis using w'(3) by blast
  next
    case True
    let ?w1 = "log_msg INFO (''Removed old backup: '' @ f) (delete_file ?bp w)"
    have "\<forall>name\<in>set names. lookup ?w1 (path_join dir name) \<noteq> None
            \<and> \<not> stat_fails env (path_join dir name) \<and> \<not> remove_fails env (path_join dir name)"
      using Cons.prems(2) ne by simp
    from Cons.IH [OF d this] obtain w' where
      w': "rotate_loop env cutoff dir names ?w1 = (Inr (), w')"
        "\<forall>p. lookup w' p =
                 (if p \<in> path_join dir ` set names \<and> (\<exists>c t. lookup ?w1 p = Some (c, t) \<and> t < cutoff)
                  then None else lookup ?w1 p)"
        "calls w' = calls ?w1"
      by blast
    have "rotate_loop env cutoff dir (f # names) w = (Inr (), w')"
      using gm True c rf w'(1) by (simp add: Let_def os_remove_def)
    moreover have "\<forall>p. lookup w' p =
                 (if p \<in> path_join dir ` set (f # names) \<and> (\<exists>c t. lookup w p = Some (c, t) \<and> t < cutoff)
                  then None else lookup w p)"
      using w'(2) c True notin by auto
    ultimately show ?thesis using w'(3) by auto
  qed
qed

lemma rotate_loop_stops:
  assumes "distinct (map (path_join dir) (pre @ f # post))"
    and "\<forall>name\<in>set pre. lookup w (path_join dir name) \<noteq> None
            \<and> \<not> stat_fails env (path_join dir name) \<and> \<not> remove_fails env (path_join dir name)"
    and "lookup w (path_join dir f) = Some (c, t)"
    and "stat_fails env (path_join dir f) \<or> (t < cutoff \<and> remove_fails env (path_join dir f))"
  shows "\<exists>w'. rotate_loop env cutoff dir (pre @ f # post) w = (Inl (OSError (path_join dir f)), w')
           \<and> (\<forall>p. lookup w' p =
                 (if p \<in> path_join dir ` set pre \<and> (\<exists>c t. lookup w p = Some (c, t) \<and> t < cutoff)
                  then None else lookup w p))
           \<and> calls w' = calls w"
  using assms
proof (induction pre arbitrary: w)
  case Nil
  then show ?case by (auto simp: Let_def getmtime_def os_remove_def)
next
  case (Cons g pre)
  let ?bp = "path_join dir g"
  let ?fp = "path_join dir f"
  from Cons.prems(2) obtain c' mt where c': "lookup w ?bp = Some (c', mt)" by fastforce
  have sf: "\<not> stat_fails env ?bp" and rf: "\<not> remove_fails env ?bp" using Cons.prems(2) by auto
  have gm: "getmtime env ?bp w = Inr mt" using c' sf by (simp add: getmtime_def)
  have notin: "?bp \<notin> path_join dir ` set pre" and nf: "?fp \<noteq> ?bp"
    using Cons.prems(1) by auto
  have d: "distinct (map (path_join dir) (pre @ f # post))" using Cons.prems(1) by simp
  have ne: "\<And>name. name \<in> set pre \<Longrightarrow> path_join dir name \<noteq> ?bp"
    using notin by (metis imageI)
  show ?case
  proof (cases "mt < cutoff")
    case False
    have p2: "\<forall>name\<in>set pre. lookup w (path_join dir name) \<noteq> None
            \<and> \<not> stat_fails env (path_join dir name) \<and> \<not> remove_fails env (path_join dir name)"
      using Cons.prems(2) by simp
    from Cons.IH [OF d p2 Cons.prems(3,4)] obtain w' where
      w': "rotate_loop env cutoff dir (pre @ f # post) w = (Inl (OSError ?fp), w')"
        "\<forall>p. lookup w' p =
                 (if p \<in> path_join dir ` set pre \<and> (\<exists>c t. lookup w p = Some (c, t) \<and> t < cutoff)
                  then None else lookup w p)"
        "calls w' = calls w"
      by blast
    have "rotate_loop env cutoff dir ((g # pre) @ f # post) w = (Inl (OSError ?fp), w')"
      using gm False w'(1) by (simp add: Let_def)
    moreover have "\<forall>p. lookup w' p =
                 (if p \<in> path_join dir ` set (g # pre) \<and> (\<exists>c t. lookup w p = Some (c, t) \<and> t < cutoff)
                  then None else lookup w p)"
      using w'(2) c' False by auto
    ultimately show ?thesis using w'(3) by blast
  next
    case True
    let ?w1 = "log_msg INFO (''Removed old backup: '' @ g) (delete_file ?bp w)"
    have p2: "\<forall>name\<in>set pre. lookup ?w1 (path_join dir name) \<noteq> None
            \<and> \<not> stat_fails env (path_join dir name) \<and> \<not> remove_fails env (path_join dir name)"
      using Cons.prems(2) ne by simp
    have p3: "lookup ?w1 ?fp = Some (c, t)" using Cons.prems(3) nf by simp
    from Cons.IH [OF d p2 p3 Cons.prems(4)] obtain w' where
      w': "rotate_loop env cutoff dir (pre @ f # post) ?w1 = (Inl (OSError ?fp), w')"
        "\<forall>p. lookup w' p =
                 (if p \<in> path_join dir ` set pre \<and> (\<exists>c t. lookup ?w1 p = Some (c, t) \<and> t < cutoff)
                  then None else lookup ?w1 p)"
        "calls w' = calls ?w1"
      by blast
    have "rotate_loop env cutoff dir ((g # pre) @ f # post) w = (Inl (OSError ?fp), w')"
      using gm True c' rf w'(1) by (simp add: Let_def os_remove_def)
    moreover have "\<forall>p. lookup w' p =
                 (if p \<in> path_join dir ` set (g # pre) \<and> (\<exists>c t. lookup w p = Some (c, t) \<and> t < cutoff)
                  then None else lookup w p)"
      using w'(2) c' True notin by auto
    ultimately show ?thesis using w'(3) by auto
  qed
qed

lemma cutoff_date_Inr:
  "cutoff_date cfg env = Inr c \<Longrightarrow> c = now env - retention_days cfg * 86400000000"
  by (auto simp: cutoff_date_def timedelta_days_def datetime_sub_def split: if_splits)

lemma cutoff_date_in_range:
  "\<bar>retention_days cfg\<bar> \<le> 999999999 \<Longrightarrow> 0 \<le> now env - retention_days cfg * 86400000000 \<Longrightarrow>
   now env - retention_days cfg * 86400000000 \<le> datetime_max \<Longrightarrow>
   cutoff_date cfg env = Inr (now env - retention_days cfg * 86400000000)"
  by (simp add: cutoff_date_def timedelta_days_def datetime_sub_def)

lemma rotate_backups_only_older:
  assumes "rotate_backups cfg env w = (r, w')"
  shows "lookup w' p = lookup w p
         \<or> (lookup w' p = None
            \<and> (\<exists>c t. lookup w p = Some (c, t) \<and> t < now env - retention_days cfg * 86400000000))"
proof (cases "cutoff_date cfg env")
  case (Inl e)
  with assms show ?thesis by (simp add: rotate_backups_def)
next
  case (Inr cutoff)
  then have cut: "cutoff = now env - retention_days cfg * 86400000000" by (rule cutoff_date_Inr)
  obtain r1 w1 where s: "rotate_scan cfg env cutoff w = (r1, w1)" by (cases "rotate_scan cfg env cutoff w")
  have w': "lookup w' p = lookup w1 p"
    using assms Inr s by (cases r1) (auto simp: rotate_backups_def)
  have "lookup w1 p = lookup w p \<or> (lookup w1 p = None \<and> (\<exists>c t. lookup w p = Some (c, t) \<and> t < cutoff))"
  proof (cases "listdir_fails env (backup_base_dir cfg)")
    case True
    with s show ?thesis by (simp add: rotate_scan_def os_listdir_def)
  next
    case False
    with s have "rotate_loop env cutoff (backup_base_dir cfg) (dir_entries w (backup_base_dir cfg)) w = (r1, w1)"
      by (simp add: rotate_scan_def os_listdir_def)
    then show ?thesis by (rule rotate_loop_only_older)
  qed
  then show ?thesis unfolding w' cut .
qed

lemma rotate_backups_complete:
  assumes rng: "\<bar>retention_days cfg\<bar> \<le> 999999999" "0 \<le> cutoff" "cutoff \<le> datetime_max"
    and cutoff: "cutoff = now env - retention_days cfg * 86400000000"
    and dir: "dir = backup_base_dir cfg"
    and ls: "\<not> listdir_fails env dir"
    and ok: "\<forall>name\<in>set (dir_entries w dir).
               \<not> stat_fails env (path_join dir name) \<and> \<not> remove_fails env (path_join dir name)"
  shows "\<exists>w'. rotate_backups cfg env w = (Inr (), w')
           \<and> (\<forall>p. lookup w' p =
                 (if p \<in> path_join dir ` set (dir_entries w dir)
                     \<and> (\<exists>c t. lookup w p = Some (c, t) \<and> t < cutoff)
                  then None else lookup w p))
           \<and> calls w' = calls w"
proof -
  have cd: "cutoff_date cfg env = Inr cutoff"
    using rng unfolding cutoff by (rule cutoff_date_in_range)
  have "\<forall>name\<in>set (dir_entries w dir). lookup w (path_join dir name) \<noteq> None
            \<and> \<not> stat_fails env (path_join dir name) \<and> \<not> remove_fails env (path_join dir name)"
    using ok dir_entries_exist by blast
  from rotate_loop_complete [OF distinct_dir_entries this, of cutoff] obtain w' where
    w': "rotate_loop env cutoff dir (dir_entries w dir) w = (Inr (), w')"
      "\<forall>p. lookup w' p =
                 (if p \<in> path_join dir ` set (dir_entries w dir)
                     \<and> (\<exists>c t. lookup w p = Some (c, t) \<and> t < cutoff)
                  then None else lookup w p)"
      "calls w' = calls w"
    by blast
  have "rotate_backups cfg env w = (Inr (), w')"
    using cd ls w'(1) unfolding dir
    by (simp add: rotate_backups_def rotate_scan_def os_listdir_def)
  then show ?thesis using w'(2,3) by blast
qed

subsection \<open>Restore\<close>

lemma extractall_ok:
  assumes "\<forall>m\<in>set ms. \<not> extract_fails env (path_join ''/'' (fst m))"
  shows "\<exists>w'. extractall env ms w = (Inr (), w') \<and> files w' = unpacked ms (files w)
           \<and> logs w' = logs w \<and> calls w' = calls w"
  using assms
proof (induction ms arbitrary: w)
  case Nil
  then show ?case by (simp add: unpacked_def)
next
  case (Cons m ms)
  obtain name c t where m: "m = (name, c, t)" by (cases m)
  let ?w1 = "write_file (path_join ''/'' name) c t w"
  from Cons.prems have "\<forall>m\<in>set ms. \<not> extract_fails env (path_join ''/'' (fst m))" by simp
  from Cons.IH [OF this, of ?w1] obtain w' where
    "extractall env ms ?w1 = (Inr (), w')" "files w' = unpacked ms (files ?w1)"
    "logs w' = logs ?w1" "calls w' = calls ?w1"
    by blast
  then show ?case
    using Cons.prems m by (simp add: unpacked_def write_file_def)
qed

lemma extractall_frame:
  assumes "extractall env ms w = (r, w')"
  shows "(q \<notin> set (map (\<lambda>m. path_join ''/'' (fst m)) ms) \<longrightarrow> lookup w' q = lookup w q)
         \<and> logs w' = logs w \<and> calls w' = calls w"
  using assms
proof (induction ms arbitrary: w)
  case Nil
  then show ?case by simp
next
  case (Cons m ms)
  obtain name c t where m: "m = (name, c, t)" by (cases m)
  show ?case
  proof (cases "extract_fails env (path_join ''/'' name)")
    case True
    with Cons.prems m show ?thesis by simp
  next
    case False
    let ?w1 = "write_file (path_join ''/'' name) c t w"
    from Cons.prems m False have "extractall env ms ?w1 = (r, w')" by simp
    from Cons.IH [OF this] show ?thesis using m by auto
  qed
qed

lemma restart_kamailio_cases:
  "restart_kamailio env w =
     (case systemctl_status env of
        Exited0 \<Rightarrow> Inr ()
      | ExitedNonZero \<Rightarrow> Inl (CalledProcessError ''systemctl'')
      | NotStarted \<Rightarrow> Inl (OSError ''systemctl''),
      record_call (SystemctlRestart ''kamailio'') w)"
  by (simp add: restart_kamailio_def Let_def split: proc_status.splits)

lemma restore_backup_unfold:
  "restore_backup env bp w =
     (case and_then (decrypt_if_encrypted env bp w) (unpack_and_restart env)
      of (Inl e, w') \<Rightarrow> (Inl e, log_exc ERROR ''Backup restoration failed: '' e w')
       | (Inr u, w') \<Rightarrow> (Inr u, w'))"
  by (simp only: restore_backup_def unpack_and_restart_def [abs_def])

lemma unpack_and_restart_frame:
  assumes "unpack_and_restart env p w1 = (r, w')"
    and "\<And>c t. lookup w1 p = Some (c, t) \<Longrightarrow> q \<notin> set (extract_targets c)"
  shows "lookup w' q = lookup w1 q"
proof (cases "tar_open_r env p w1")
  case (Pair r1 w2)
  show ?thesis
  proof (cases r1)
    case (Inl e)
    then have "w2 = w1" using Pair
      by (auto simp: tar_open_r_def split: option.splits if_splits)
    with assms(1) Pair Inl show ?thesis by (simp add: unpack_and_restart_def)
  next
    case (Inr ms)
    with Pair obtain c t where w2: "w2 = w1" and c: "lookup w1 p = Some (c, t)"
      and am: "archive_members c = Some ms"
      by (auto simp: tar_open_r_def split: option.splits if_splits)
    from assms(2) [OF c] have nt: "q \<notin> set (map (\<lambda>m. path_join ''/'' (fst m)) ms)"
      by (simp add: extract_targets_def am)
    obtain r3 w3 where e: "extractall env ms w1 = (r3, w3)" by (cases "extractall env ms w1")
    from extractall_frame [OF e, of q] nt have l3: "lookup w3 q = lookup w1 q" by simp
    show ?thesis
    proof (cases r3)
      case (Inl e')
      with assms(1) Pair Inr w2 e have "w' = w3" by (simp add: unpack_and_restart_def)
      with l3 show ?thesis by simp
    next
      case (Inr u)
      with assms(1) Pair \<open>r1 = Inr ms\<close> w2 e
      have "lookup w' q = lookup w3 q"
        by (cases "systemctl_status env")
           (auto simp: unpack_and_restart_def restart_kamailio_cases)
      with l3 show ?thesis by simp
    qed
  qed
qed

lemma gpg_decrypt_wrong_key:
  assumes "lookup w bp = Some (Gpg k c, t)" "k \<noteq> passphrase env"
  shows "gpg_decrypt env bp dp w =
           (Inl (if gpg_decrypt_status env bp = NotStarted then OSError ''gpg''
                 else CalledProcessError ''gpg''),
            record_call (GpgDecrypt (passphrase env) dp bp) w)"
  using assms by (cases "gpg_decrypt_status env bp") (simp_all add: gpg_decrypt_def Let_def)

lemma gpg_decrypt_right_key:
  assumes "lookup w bp = Some (Gpg k c, t)" "k = passphrase env"
    "gpg_decrypt_status env bp = Exited0"
  shows "gpg_decrypt env bp dp w =
           (Inr (), write_file dp c (now env) (record_call (GpgDecrypt (passphrase env) dp bp) w))"
  using assms by (simp add: gpg_decrypt_def Let_def)

lemma endswith_gpg_shorter:
  "endswith bp ''.gpg'' \<Longrightarrow> take (length bp - 4) bp \<noteq> bp"
proof
  assume a: "endswith bp ''.gpg''" and b: "take (length bp - 4) bp = bp"
  from a have "4 \<le> length bp" by (simp add: endswith_def)
  moreover from b have "length bp \<le> length bp - 4" by (simp only: take_all_iff)
  ultimately show False by arith
qed

text \<open>
  An archive without its end is read as far as its whole members go: here it is unpacked
  and the service restarted.
\<close>

lemma restore_backup_reads_unterminated_archive:
  "fst (restore_backup env_ok ''/b/p.tar.gz'' w_unterminated) = Inr ()
   \<and> lookup (snd (restore_backup env_ok ''/b/p.tar.gz'' w_unterminated)) ''/kamailio''
       = Some (Opaque ''cfg'', 5)
   \<and> calls (snd (restore_backup env_ok ''/b/p.tar.gz'' w_unterminated))
       = [SystemctlRestart ''kamailio'']
   \<and> fst (restore_backup env_ok ''/b/e.tar.gz'' w_unterminated) = Inl (ReadError ''/b/e.tar.gz'')"
  by code_simp

subsection \<open>Validation of the configuration\<close>

lemma check_keys_object:
  "check_keys ks (JObject kvs) =
     (case find (\<lambda>k. k \<notin> fst ` set kvs) ks of
        None \<Rightarrow> Inr ()
      | Some k \<Rightarrow> Inl (ValueError (''Missing required configuration key: '' @ k)))"
  by (induction ks) (simp_all add: py_in_def)

section \<open>The claims of the specification\<close>

subsection \<open>C1: Failure of the archive\<close>

text \<open>
  C1 (as amended). When the archive cannot be opened, or an existing component cannot be
  added to it, \<open>create_backup\<close> logs the error and raises it to the caller without
  starting encryption or upload, and no file other than the archive path is touched. The
  archive file is not removed: after a failed open the path is as it was, after a failed
  add it holds the archive as far as it was written.
\<close>

theorem create_backup_archive_failure:
  assumes ap: "backup_path_of cfg env arg = ap"
    and fail: "open_fails env ap
        \<or> (\<exists>c\<in>set (components_to_backup cfg). c \<noteq> ap \<and> path_exists w c \<and> add_fails env c)"
  shows "\<exists>e w'. create_backup cfg env arg w = (Inl e, w')
           \<and> last (logs w') = Log ERROR ''Backup creation failed: '' (Some e)
           \<and> calls w' = calls w
           \<and> (\<forall>q. q \<noteq> ap \<longrightarrow> lookup w' q = lookup w q)
           \<and> (if open_fails env ap then lookup w' ap = lookup w ap
               else \<exists>ms. lookup w' ap = Some (PartialTarGz ms, now env))"
proof -
  have "open_fails env ap
        \<or> (\<exists>c\<in>set (components_to_backup cfg). c \<noteq> ap \<and> lookup w c \<noteq> None \<and> add_fails env c)"
    using fail unfolding path_exists_def by blast
  from build_archive_fails [OF this] obtain e w1 where
    w1: "build_archive env (components_to_backup cfg) ap w = (Inl e, w1)"
      "\<forall>q. q \<noteq> ap \<longrightarrow> lookup w1 q = lookup w q"
      "if open_fails env ap then lookup w1 ap = lookup w ap
               else \<exists>ms. lookup w1 ap = Some (PartialTarGz ms, now env)"
      "calls w1 = calls w"
    by blast
  let ?w' = "log_exc ERROR ''Backup creation failed: '' e w1"
  have run: "create_backup cfg env arg w = (Inl e, ?w')"
    by (simp only: create_backup_def Let_def ap w1(1) and_then_Inl prod.case sum.case)
  have a: "last (logs ?w') = Log ERROR ''Backup creation failed: '' (Some e)" by simp
  have b: "calls ?w' = calls w" using w1(4) by simp
  have c: "\<forall>q. q \<noteq> ap \<longrightarrow> lookup ?w' q = lookup w q" using w1(2) by simp
  have d: "if open_fails env ap then lookup ?w' ap = lookup w ap
               else \<exists>ms. lookup ?w' ap = Some (PartialTarGz ms, now env)"
    using w1(3) by simp
  show ?thesis
    by (rule exI [of _ e], rule exI [of _ ?w']) (intro conjI run a b c d)
qed

theorem create_backup_archive_failure_witness:
  "\<exists>e w'. create_backup cfg_two env_disk_full None w_two = (Inl e, w')
     \<and> last (logs w') = Log ERROR ''Backup creation failed: '' (Some e)
     \<and> calls w' = []
     \<and> lookup w' ''/etc/kamailio'' = Some (Opaque ''cfg'', 5)
     \<and> (\<exists>ms. lookup w' ap_ex = Some (PartialTarGz ms, now env_disk_full))"
proof -
  have h1: "backup_path_of cfg_two env_disk_full None = ap_ex" by code_simp
  have h2: "open_fails env_disk_full ap_ex
        \<or> (\<exists>c\<in>set (components_to_backup cfg_two).
              c \<noteq> ap_ex \<and> path_exists w_two c \<and> add_fails env_disk_full c)"
    by code_simp
  have e1: "\<not> open_fails env_disk_full ap_ex" by code_simp
  have e2: "calls w_two = []" by code_simp
  have e3: "''/etc/kamailio'' \<noteq> ap_ex" by code_simp
  have e4: "lookup w_two ''/etc/kamailio'' = Some (Opaque ''cfg'', 5)" by code_simp
  from create_backup_archive_failure [OF h1 h2] obtain e w' where
    w': "create_backup cfg_two env_disk_full None w_two = (Inl e, w')"
      "last (logs w') = Log ERROR ''Backup creation failed: '' (Some e)"
      "calls w' = calls w_two"
      "\<forall>q. q \<noteq> ap_ex \<longrightarrow> lookup w' q = lookup w_two q"
      "if open_fails env_disk_full ap_ex then lookup w' ap_ex = lookup w_two ap_ex
       else \<exists>ms. lookup w' ap_ex = Some (PartialTarGz ms, now env_disk_full)"
    by blast
  have a: "calls w' = []" using w'(3) e2 by simp
  have b: "lookup w' ''/etc/kamailio'' = Some (Opaque ''cfg'', 5)" using w'(4) e3 e4 by simp
  have c: "\<exists>ms. lookup w' ap_ex = Some (PartialTarGz ms, now env_disk_full)"
    using w'(5) e1 by simp
  show ?thesis
    by (rule exI [of _ e], rule exI [of _ w']) (intro conjI w'(1) w'(2) a b c)
qed

text \<open>
  C1 as stated fails: the second component cannot be written, the run raises, and the
  archive path, which did not exist before, is left holding the first component.
\<close>

theorem create_backup_leaves_partial_archive:
  "fst (create_backup cfg_two env_disk_full None w_two) = Inl (OSError ''/var/lib/kamailio'')
   \<and> lookup w_two ap_ex = None
   \<and> lookup (snd (create_backup cfg_two env_disk_full None w_two)) ap_ex
       = Some (PartialTarGz [(''kamailio'', Opaque ''cfg'', 5)], now env_disk_full)"
  by code_simp

subsection \<open>C2: The encrypted artifact\<close>

text \<open>
  C2 (as amended). When encryption is enabled with \<^verbatim>\<open>gpg\<close> and succeeds (the archive
  was written and closed, \<^verbatim>\<open>gpg\<close> exits with 0 and the plaintext can be removed), the run
  leaves the encrypted archive at the plaintext path suffixed \<^verbatim>\<open>.gpg\<close> and no file at
  the plaintext path, whatever the upload stage does afterwards.
\<close>

theorem create_backup_encrypted_artifact:
  assumes ap: "backup_path_of cfg env arg = ap"
    and comps: "components_to_backup cfg = comps"
    and opn: "\<not> open_fails env ap"
    and adds: "\<forall>c\<in>set comps. path_exists w c \<longrightarrow> \<not> add_fails env c"
    and cls: "\<not> close_fails env ap"
    and enabled: "encryption_enabled cfg"
    and gpg: "encryption_method cfg = ''gpg''"
    and ok: "gpg_encrypt_status env ap = Exited0"
    and rm: "\<not> remove_fails env ap"
  shows "lookup (snd (create_backup cfg env arg w)) (ap @ ''.gpg'')
           = Some (Gpg (passphrase env) (TarGz (members_of w ap comps)), now env)
         \<and> lookup (snd (create_backup cfg env arg w)) ap = None"
proof -
  let ?A = "TarGz (members_of w ap comps)"
  have adds': "\<forall>c\<in>set comps. c \<noteq> ap \<longrightarrow> lookup w c \<noteq> None \<longrightarrow> \<not> add_fails env c"
    using adds by (simp add: path_exists_def)
  from build_archive_ok [OF opn cls adds'] obtain w1 where
    w1: "build_archive env comps ap w = (Inr (), w1)" "lookup w1 ap = Some (?A, now env)"
    by blast
  have "encryption_method cfg = ''gpg'' \<longrightarrow>
           gpg_encrypt_status env ap \<noteq> NotStarted
           \<and> (gpg_encrypt_status env ap = Exited0 \<longrightarrow> \<not> remove_fails env ap)"
    using ok rm by simp
  from encrypt_stage [OF w1(2) this] obtain w2 where
    w2: "encrypt_backup cfg env ap w1 = (Inr (), w2)"
      "lookup w2 ap = None"
      "lookup w2 (ap @ ''.gpg'') = Some (Gpg (passphrase env) ?A, now env)"
    using gpg ok by auto
  have "(if encryption_enabled cfg then encrypt_backup cfg env ap w1 else (Inr (), w1))
               = (Inr (), w2)"
    using enabled w2(1) by simp
  from create_backup_files_after_stages [OF ap comps w1(1) this]
  have "\<And>q. lookup (snd (create_backup cfg env arg w)) q = lookup w2 q"
    by (simp add: lookup_def)
  then show ?thesis using w2(2,3) by simp
qed

theorem create_backup_encrypted_artifact_witness:
  "lookup (snd (create_backup cfg_enc_remote env_ok None w_one)) (ap_ex @ ''.gpg'')
     = Some (Gpg ''default_key'' (TarGz [(''kamailio'', Opaque ''cfg'', 5)]), now env_ok)
   \<and> lookup (snd (create_backup cfg_enc_remote env_ok None w_one)) ap_ex = None"
proof -
  let ?cs = "[''/etc/kamailio'', ''/missing'']"
  have h1: "backup_path_of cfg_enc_remote env_ok None = ap_ex" by code_simp
  have h2: "components_to_backup cfg_enc_remote = ?cs" by code_simp
  have h3: "\<not> open_fails env_ok ap_ex" by code_simp
  have h4: "\<forall>c\<in>set ?cs. path_exists w_one c \<longrightarrow> \<not> add_fails env_ok c" by code_simp
  have h5: "\<not> close_fails env_ok ap_ex" by code_simp
  have h6: "encryption_enabled cfg_enc_remote" by code_simp
  have h7: "encryption_method cfg_enc_remote = ''gpg''" by code_simp
  have h8: "gpg_encrypt_status env_ok ap_ex = Exited0" by code_simp
  have h9: "\<not> remove_fails env_ok ap_ex" by code_simp
  have e1: "passphrase env_ok = ''default_key''" by code_simp
  have e2: "members_of w_one ap_ex ?cs = [(''kamailio'', Opaque ''cfg'', 5)]" by code_simp
  from create_backup_encrypted_artifact [OF h1 h2 h3 h4 h5 h6 h7 h8 h9]
  show ?thesis unfolding e1 e2 .
qed

text \<open>
  C2 as stated fails: with encryption and replication enabled and every program
  succeeding, the run returns the plaintext path and hands that same path to
  \<^verbatim>\<open>aws s3 cp\<close>, although the file there was deleted; nothing is written at the path
  suffixed \<^verbatim>\<open>.enc\<close>, the encrypted file is the one suffixed \<^verbatim>\<open>.gpg\<close>.
\<close>

theorem create_backup_returns_deleted_plaintext_path:
  "fst (create_backup cfg_enc_remote env_ok None w_one) = Inr ap_ex
   \<and> ap_ex \<noteq> ap_ex @ ''.enc''
   \<and> calls (snd (create_backup cfg_enc_remote env_ok None w_one))
       = [GpgSymmetric ''default_key'' ap_ex, AwsS3Cp ap_ex ''s3://offsite/'' ''AK'' ''SK'']
   \<and> lookup (snd (create_backup cfg_enc_remote env_ok None w_one)) ap_ex = None
   \<and> lookup (snd (create_backup cfg_enc_remote env_ok None w_one)) (ap_ex @ ''.enc'') = None
   \<and> lookup (snd (create_backup cfg_enc_remote env_ok None w_one)) (ap_ex @ ''.gpg'')
       = Some (Gpg ''default_key'' (TarGz [(''kamailio'', Opaque ''cfg'', 5)]), now env_ok)"
  by code_simp

subsection \<open>C3: Retention: which files are deleted\<close>

text \<open>
  C3. Let the configured retention window be \<open>d\<close> days, the cutoff \<open>now\<close> minus \<open>d\<close> days
  and the backup store the configured backup directory.
  A retention pass deletes a file only if its modification time is strictly older than the
  cutoff, and a file whose time equals the cutoff stays, whatever else happens in the
  pass. When the cutoff is a date \<^verbatim>\<open>datetime\<close> can hold and no listing, stat or delete
  fails, the pass returns normally and every file of the backup store is deleted if and
  only if it is strictly older than the cutoff.
\<close>

theorem rotate_backups_deletes_strictly_older:
  assumes run: "rotate_backups cfg env w = (r, w')"
    and days: "backup_retention_days cfg = Some d"
    and cutoff: "cutoff = now env - d * 86400000000"
    and store: "backup_directory cfg = Some dir"
  shows "(\<forall>p c t. lookup w p = Some (c, t) \<and> lookup w' p = None \<longrightarrow> t < cutoff)
       \<and> (\<forall>p c t. lookup w p = Some (c, t) \<and> t = cutoff \<longrightarrow> lookup w' p = Some (c, t))
       \<and> (\<bar>d\<bar> \<le> 999999999 \<and> 0 \<le> cutoff \<and> cutoff \<le> datetime_max
            \<and> \<not> listdir_fails env dir
            \<and> (\<forall>name\<in>set (dir_entries w dir).
                   \<not> stat_fails env (path_join dir name) \<and> \<not> remove_fails env (path_join dir name))
          \<longrightarrow> r = Inr ()
              \<and> (\<forall>name\<in>set (dir_entries w dir). \<forall>c t.
                   lookup w (path_join dir name) = Some (c, t) \<longrightarrow>
                     (lookup w' (path_join dir name) = None \<longleftrightarrow> t < cutoff)))"
proof -
  have rd: "retention_days cfg = d" using days by (simp add: retention_days_def)
  have cutoff': "cutoff = now env - retention_days cfg * 86400000000"
    using cutoff rd by simp
  have dir: "dir = backup_base_dir cfg" using store by (simp add: backup_base_dir_def)
  show ?thesis
  proof (intro conjI allI impI)
    fix p c t
    assume "lookup w p = Some (c, t) \<and> lookup w' p = None"
    with rotate_backups_only_older [OF run, of p] show "t < cutoff"
      unfolding cutoff' by auto
  next
    fix p c t
    assume "lookup w p = Some (c, t) \<and> t = cutoff"
    with rotate_backups_only_older [OF run, of p] show "lookup w' p = Some (c, t)"
      unfolding cutoff' by auto
  next
    assume a: "\<bar>d\<bar> \<le> 999999999 \<and> 0 \<le> cutoff \<and> cutoff \<le> datetime_max
              \<and> \<not> listdir_fails env dir
              \<and> (\<forall>name\<in>set (dir_entries w dir).
                     \<not> stat_fails env (path_join dir name) \<and> \<not> remove_fails env (path_join dir name))"
    then have "\<exists>w'. rotate_backups cfg env w = (Inr (), w')
             \<and> (\<forall>p. lookup w' p =
                   (if p \<in> path_join dir ` set (dir_entries w dir)
                       \<and> (\<exists>c t. lookup w p = Some (c, t) \<and> t < cutoff)
                    then None else lookup w p))
             \<and> calls w' = calls w"
      using rotate_backups_complete [OF _ _ _ cutoff' dir] rd by blast
    with run have r: "r = Inr ()"
      and l: "\<And>p. lookup w' p =
                   (if p \<in> path_join dir ` set (dir_entries w dir)
                       \<and> (\<exists>c t. lookup w p = Some (c, t) \<and> t < cutoff)
                    then None else lookup w p)"
      by auto
    show "r = Inr ()" by (rule r)
    show "\<forall>name\<in>set (dir_entries w dir). \<forall>c t.
                     lookup w (path_join dir name) = Some (c, t) \<longrightarrow>
                       (lookup w' (path_join dir name) = None \<longleftrightarrow> t < cutoff)"
      by (auto simp: l)
  qed
qed

theorem rotate_backups_deletes_strictly_older_witness:
  "fst (rotate_backups cfg_29_days env_ok w_store) = Inr ()
   \<and> lookup (snd (rotate_backups cfg_29_days env_ok w_store)) ''/b/k30.tar.gz'' = None
   \<and> lookup (snd (rotate_backups cfg_29_days env_ok w_store)) ''/b/k31.tar.gz'' = None
   \<and> lookup (snd (rotate_backups cfg_29_days env_ok w_store)) ''/b/k45.tar.gz'' = None
   \<and> lookup (snd (rotate_backups cfg_29_days env_ok w_store)) ''/b/k29.tar.gz''
       = Some (Opaque ''29'', 739222 * 86400000000)
   \<and> lookup (snd (rotate_backups cfg_29_days env_ok w_store)) ''/b/k10.tar.gz'' \<noteq> None"
proof -
  let ?X = "rotate_backups cfg_29_days env_ok w_store"
  let ?cut = "739222 * 86400000000 :: int"
  have run: "rotate_backups cfg_29_days env_ok w_store = (fst ?X, snd ?X)" by simp
  have h1: "backup_retention_days cfg_29_days = Some 29" by code_simp
  have h2: "?cut = now env_ok - 29 * 86400000000" by code_simp
  have h3: "backup_directory cfg_29_days = Some ''/b''" by code_simp
  note T = rotate_backups_deletes_strictly_older [OF run h1 h2 h3]
  have pre: "\<bar>29 :: int\<bar> \<le> 999999999 \<and> 0 \<le> ?cut \<and> ?cut \<le> datetime_max
            \<and> \<not> listdir_fails env_ok ''/b''
            \<and> (\<forall>name\<in>set (dir_entries w_store ''/b'').
                   \<not> stat_fails env_ok (path_join ''/b'' name)
                   \<and> \<not> remove_fails env_ok (path_join ''/b'' name))"
    by code_simp
  from T pre have r: "fst ?X = Inr ()"
    and iff: "\<forall>name\<in>set (dir_entries w_store ''/b''). \<forall>c t.
                   lookup w_store (path_join ''/b'' name) = Some (c, t) \<longrightarrow>
                     (lookup (snd ?X) (path_join ''/b'' name) = None \<longleftrightarrow> t < ?cut)"
    by blast+
  from T have keep: "\<forall>p c t. lookup w_store p = Some (c, t) \<and> t = ?cut \<longrightarrow> lookup (snd ?X) p = Some (c, t)"
    by blast
  have m30: "''k30.tar.gz'' \<in> set (dir_entries w_store ''/b'')" by code_simp
  have l30: "lookup w_store (path_join ''/b'' ''k30.tar.gz'') = Some (Opaque ''30'', 739221 * 86400000000)"
    by code_simp
  have p30: "path_join ''/b'' ''k30.tar.gz'' = ''/b/k30.tar.gz''" by code_simp
  have m31: "''k31.tar.gz'' \<in> set (dir_entries w_store ''/b'')" by code_simp
  have l31: "lookup w_store (path_join ''/b'' ''k31.tar.gz'') = Some (Opaque ''31'', 739220 * 86400000000)"
    by code_simp
  have p31: "path_join ''/b'' ''k31.tar.gz'' = ''/b/k31.tar.gz''" by code_simp
  have m45: "''k45.tar.gz'' \<in> set (dir_entries w_store ''/b'')" by code_simp
  have l45: "lookup w_store (path_join ''/b'' ''k45.tar.gz'') = Some (Opaque ''45'', 739206 * 86400000000)"
    by code_simp
  have p45: "path_join ''/b'' ''k45.tar.gz'' = ''/b/k45.tar.gz''" by code_simp
  have m10: "''k10.tar.gz'' \<in> set (dir_entries w_store ''/b'')" by code_simp
  have l10: "lookup w_store (path_join ''/b'' ''k10.tar.gz'') = Some (Opaque ''10'', 739241 * 86400000000)"
    by code_simp
  have p10: "path_join ''/b'' ''k10.tar.gz'' = ''/b/k10.tar.gz''" by code_simp
  have l29: "lookup w_store ''/b/k29.tar.gz'' = Some (Opaque ''29'', ?cut)" by code_simp
  from iff m30 l30 have "lookup (snd ?X) (path_join ''/b'' ''k30.tar.gz'') = None
      \<longleftrightarrow> 739221 * 86400000000 < ?cut" by blast
  then have a0: "lookup (snd ?X) ''/b/k30.tar.gz'' = None" unfolding p30 by simp
  from iff m31 l31 have "lookup (snd ?X) (path_join ''/b'' ''k31.tar.gz'') = None
      \<longleftrightarrow> 739220 * 86400000000 < ?cut" by blast
  then have a: "lookup (snd ?X) ''/b/k31.tar.gz'' = None" unfolding p31 by simp
  from iff m45 l45 have "lookup (snd ?X) (path_join ''/b'' ''k45.tar.gz'') = None
      \<longleftrightarrow> 739206 * 86400000000 < ?cut" by blast
  then have b: "lookup (snd ?X) ''/b/k45.tar.gz'' = None" unfolding p45 by simp
  from iff m10 l10 have "lookup (snd ?X) (path_join ''/b'' ''k10.tar.gz'') = None
      \<longleftrightarrow> 739241 * 86400000000 < ?cut" by blast
  then have d: "lookup (snd ?X) ''/b/k10.tar.gz'' \<noteq> None" unfolding p10 by simp
  from keep l29 have c: "lookup (snd ?X) ''/b/k29.tar.gz'' = Some (Opaque ''29'', ?cut)" by blast
  show ?thesis by (intro conjI r a0 a b c d)
qed

subsection \<open>C4: Retention: a failing entry\<close>

text \<open>
  C4 (as amended). When the stat or the delete of one entry fails during a retention pass,
  the failure is logged and not raised to the caller, and the pass ends there: the entries
  listed before the failing one have been deleted exactly when they were older than the
  cutoff, the failing entry and every entry listed after it are left as they were.
\<close>

theorem rotate_backups_stops_at_first_failure:
  assumes cutoff: "cutoff_date cfg env = Inr cutoff"
    and dir: "dir = backup_base_dir cfg"
    and ls: "\<not> listdir_fails env dir"
    and entries: "dir_entries w dir = pre @ f # post"
    and ok: "\<forall>name\<in>set pre.
               \<not> stat_fails env (path_join dir name) \<and> \<not> remove_fails env (path_join dir name)"
    and fail: "stat_fails env (path_join dir f)
               \<or> ((\<exists>c t. lookup w (path_join dir f) = Some (c, t) \<and> t < cutoff)
                  \<and> remove_fails env (path_join dir f))"
  shows "\<exists>w'. rotate_backups cfg env w = (Inr (), w')
           \<and> last (logs w') = Log ERROR ''Backup rotation failed: '' (Some (OSError (path_join dir f)))
           \<and> (\<forall>name\<in>set (f # post). lookup w' (path_join dir name) = lookup w (path_join dir name))
           \<and> (\<forall>name\<in>set pre. \<forall>c t. lookup w (path_join dir name) = Some (c, t) \<longrightarrow>
                 (lookup w' (path_join dir name) = None \<longleftrightarrow> t < cutoff))"
proof -
  have dist: "distinct (map (path_join dir) (pre @ f # post))"
    using distinct_dir_entries [of dir w] unfolding entries .
  have ex: "\<And>name. name \<in> set (pre @ f # post) \<Longrightarrow> lookup w (path_join dir name) \<noteq> None"
    using dir_entries_exist [of _ w dir] unfolding entries .
  have p2: "\<forall>name\<in>set pre. lookup w (path_join dir name) \<noteq> None
            \<and> \<not> stat_fails env (path_join dir name) \<and> \<not> remove_fails env (path_join dir name)"
    using ok ex by simp
  from ex [of f] obtain c t where ct: "lookup w (path_join dir f) = Some (c, t)" by auto
  have p4: "stat_fails env (path_join dir f) \<or> (t < cutoff \<and> remove_fails env (path_join dir f))"
    using fail ct by auto
  from rotate_loop_stops [OF dist p2 ct p4] obtain w1 where
    w1: "rotate_loop env cutoff dir (pre @ f # post) w = (Inl (OSError (path_join dir f)), w1)"
      "\<And>p. lookup w1 p =
                 (if p \<in> path_join dir ` set pre \<and> (\<exists>c t. lookup w p = Some (c, t) \<and> t < cutoff)
                  then None else lookup w p)"
    by blast
  let ?e = "OSError (path_join dir f)"
  let ?w' = "log_exc ERROR ''Backup rotation failed: '' ?e w1"
  have run: "rotate_backups cfg env w = (Inr (), ?w')"
    using cutoff ls w1(1) entries unfolding dir
    by (simp add: rotate_backups_def rotate_scan_def os_listdir_def)
  have a: "last (logs ?w') = Log ERROR ''Backup rotation failed: '' (Some ?e)" by simp
  have notin: "\<And>name. name \<in> set (f # post) \<Longrightarrow> path_join dir name \<notin> path_join dir ` set pre"
    using dist by auto
  have b: "\<forall>name\<in>set (f # post). lookup ?w' (path_join dir name) = lookup w (path_join dir name)"
    using notin by (simp add: w1(2))
  have c: "\<forall>name\<in>set pre. \<forall>c t. lookup w (path_join dir name) = Some (c, t) \<longrightarrow>
                 (lookup ?w' (path_join dir name) = None \<longleftrightarrow> t < cutoff)"
    by (auto simp: w1(2))
  show ?thesis
    by (rule exI [of _ ?w']) (intro conjI run a b c)
qed

theorem rotate_backups_stops_at_first_failure_witness:
  "\<exists>w'. rotate_backups cfg_plain env_remove_denied w_store = (Inr (), w')
     \<and> last (logs w') = Log ERROR ''Backup rotation failed: '' (Some (OSError ''/b/k31.tar.gz''))
     \<and> lookup w' ''/b/k31.tar.gz'' = Some (Opaque ''31'', 739220 * 86400000000)
     \<and> lookup w' ''/b/k30.tar.gz'' = Some (Opaque ''30'', 739221 * 86400000000)
     \<and> lookup w' ''/b/k45.tar.gz'' = None"
proof -
  let ?cut = "739221 * 86400000000 :: int"
  let ?pre = "[''k10.tar.gz'', ''k45.tar.gz'']"
  let ?post = "[''k29.tar.gz'', ''k30.tar.gz'']"
  have h1: "cutoff_date cfg_plain env_remove_denied = Inr ?cut" by code_simp
  have h2: "''/b'' = backup_base_dir cfg_plain" by code_simp
  have h3: "\<not> listdir_fails env_remove_denied ''/b''" by code_simp
  have h4: "dir_entries w_store ''/b'' = ?pre @ ''k31.tar.gz'' # ?post" by code_simp
  have h5: "\<forall>name\<in>set ?pre. \<not> stat_fails env_remove_denied (path_join ''/b'' name)
               \<and> \<not> remove_fails env_remove_denied (path_join ''/b'' name)"
    by code_simp
  have l31: "lookup w_store (path_join ''/b'' ''k31.tar.gz'') = Some (Opaque ''31'', 739220 * 86400000000)"
    by code_simp
  have rf: "remove_fails env_remove_denied (path_join ''/b'' ''k31.tar.gz'')" by code_simp
  have h6: "stat_fails env_remove_denied (path_join ''/b'' ''k31.tar.gz'')
               \<or> ((\<exists>c t. lookup w_store (path_join ''/b'' ''k31.tar.gz'') = Some (c, t) \<and> t < ?cut)
                  \<and> remove_fails env_remove_denied (path_join ''/b'' ''k31.tar.gz''))"
    using l31 rf by simp
  have p31: "path_join ''/b'' ''k31.tar.gz'' = ''/b/k31.tar.gz''" by code_simp
  have p30: "path_join ''/b'' ''k30.tar.gz'' = ''/b/k30.tar.gz''" by code_simp
  have p45: "path_join ''/b'' ''k45.tar.gz'' = ''/b/k45.tar.gz''" by code_simp
  have l30: "lookup w_store (path_join ''/b'' ''k30.tar.gz'') = Some (Opaque ''30'', 739221 * 86400000000)"
    by code_simp
  have l45: "lookup w_store (path_join ''/b'' ''k45.tar.gz'') = Some (Opaque ''45'', 739206 * 86400000000)"
    by code_simp
  from rotate_backups_stops_at_first_failure [OF h1 h2 h3 h4 h5 h6] obtain w' where
    w': "rotate_backups cfg_plain env_remove_denied w_store = (Inr (), w')"
      "last (logs w') = Log ERROR ''Backup rotation failed: ''
                          (Some (OSError (path_join ''/b'' ''k31.tar.gz'')))"
      "\<forall>name\<in>set (''k31.tar.gz'' # ?post).
          lookup w' (path_join ''/b'' name) = lookup w_store (path_join ''/b'' name)"
      "\<forall>name\<in>set ?pre. \<forall>c t. lookup w_store (path_join ''/b'' name) = Some (c, t) \<longrightarrow>
                 (lookup w' (path_join ''/b'' name) = None \<longleftrightarrow> t < ?cut)"
    by blast
  have a: "last (logs w') = Log ERROR ''Backup rotation failed: '' (Some (OSError ''/b/k31.tar.gz''))"
    using w'(2) unfolding p31 .
  from w'(3) have "lookup w' (path_join ''/b'' ''k31.tar.gz'') = lookup w_store (path_join ''/b'' ''k31.tar.gz'')"
    by simp
  then have b: "lookup w' ''/b/k31.tar.gz'' = Some (Opaque ''31'', 739220 * 86400000000)"
    using l31 unfolding p31 by simp
  from w'(3) have "lookup w' (path_join ''/b'' ''k30.tar.gz'') = lookup w_store (path_join ''/b'' ''k30.tar.gz'')"
    by simp
  then have c: "lookup w' ''/b/k30.tar.gz'' = Some (Opaque ''30'', 739221 * 86400000000)"
    using l30 unfolding p30 by simp
  from w'(4) l45 have "lookup w' (path_join ''/b'' ''k45.tar.gz'') = None
      \<longleftrightarrow> 739206 * 86400000000 < ?cut" by simp
  then have d: "lookup w' ''/b/k45.tar.gz'' = None" unfolding p45 by simp
  show ?thesis
    by (rule exI [of _ w']) (intro conjI w'(1) a b c d)
qed

text \<open>
  C4 as stated fails: the first entry listed cannot be examined, the pass ends there, and
  the artifact aged 45 days, which nothing prevents from being examined and deleted, is
  still in the store afterwards.
\<close>

theorem rotate_backups_abandons_remaining_entries:
  "fst (rotate_backups cfg_plain env_stat_denied w_store) = Inr ()
   \<and> dir_entries w_store (backup_base_dir cfg_plain)
       = [''k10.tar.gz'', ''k45.tar.gz'', ''k31.tar.gz'', ''k29.tar.gz'', ''k30.tar.gz'']
   \<and> lookup (snd (rotate_backups cfg_plain env_stat_denied w_store)) ''/b/k45.tar.gz''
       = Some (Opaque ''45'', 739206 * 86400000000)
   \<and> 739206 * 86400000000 < now env_stat_denied - retention_days cfg_plain * 86400000000
   \<and> \<not> stat_fails env_stat_denied ''/b/k45.tar.gz''
   \<and> \<not> remove_fails env_stat_denied ''/b/k45.tar.gz''"
  by code_simp

subsection \<open>C5: Failure of the encryption\<close>

text \<open>
  C5 (as amended). Let encryption with \<^verbatim>\<open>gpg\<close> be enabled and the archive be written.
  When \<^verbatim>\<open>gpg\<close> runs and exits with a non-zero status, the failure is logged as an error,
  the plaintext archive stays at the archive path, nothing is written at the \<^verbatim>\<open>.gpg\<close>
  path, and the run goes on and returns the archive path (the upload stage raising
  nothing). When \<^verbatim>\<open>gpg\<close> cannot be started, the error is not caught: the run logs it and
  raises it to the caller without attempting the upload, the plaintext archive staying in
  place.
\<close>

theorem create_backup_gpg_failure:
  assumes ap: "backup_path_of cfg env arg = ap"
    and comps: "components_to_backup cfg = comps"
    and opn: "\<not> open_fails env ap"
    and adds: "\<forall>c\<in>set comps. c \<noteq> ap \<longrightarrow> path_exists w c \<longrightarrow> \<not> add_fails env c"
    and cls: "\<not> close_fails env ap"
    and enabled: "encryption_enabled cfg"
    and gpg: "encryption_method cfg = ''gpg''"
  shows "(gpg_encrypt_status env ap = ExitedNonZero
          \<and> (remote_enabled cfg \<and> rem_type (remote_config cfg) = Some ''s3'' \<longrightarrow>
               bucket (remote_config cfg) \<noteq> None \<and> access_key (remote_config cfg) \<noteq> None
               \<and> secret_key (remote_config cfg) \<noteq> None \<and> aws_status env ap \<noteq> NotStarted)
          \<longrightarrow> (\<exists>w'. create_backup cfg env arg w = (Inr ap, w')
                 \<and> lookup w' ap = Some (TarGz (members_of w ap comps), now env)
                 \<and> lookup w' (ap @ ''.gpg'') = lookup w (ap @ ''.gpg'')
                 \<and> Log ERROR ''Backup encryption failed: '' (Some (CalledProcessError ''gpg''))
                      \<in> set (logs w')))
       \<and> (gpg_encrypt_status env ap = NotStarted
          \<longrightarrow> (\<exists>w'. create_backup cfg env arg w = (Inl (OSError ''gpg''), w')
                 \<and> lookup w' ap = Some (TarGz (members_of w ap comps), now env)
                 \<and> lookup w' (ap @ ''.gpg'') = lookup w (ap @ ''.gpg'')
                 \<and> calls w' = calls w @ [GpgSymmetric (passphrase env) ap]
                 \<and> last (logs w') = Log ERROR ''Backup creation failed: '' (Some (OSError ''gpg''))))"
proof (intro conjI impI)
  assume a: "gpg_encrypt_status env ap = ExitedNonZero
          \<and> (remote_enabled cfg \<and> rem_type (remote_config cfg) = Some ''s3'' \<longrightarrow>
               bucket (remote_config cfg) \<noteq> None \<and> access_key (remote_config cfg) \<noteq> None
               \<and> secret_key (remote_config cfg) \<noteq> None \<and> aws_status env ap \<noteq> NotStarted)"
  then have err: "gpg_encrypt_status env ap = ExitedNonZero" and rem: "remote_enabled cfg \<and> rem_type (remote_config cfg) = Some ''s3'' \<longrightarrow>
             bucket (remote_config cfg) \<noteq> None \<and> access_key (remote_config cfg) \<noteq> None
             \<and> secret_key (remote_config cfg) \<noteq> None \<and> aws_status env ap \<noteq> NotStarted"
    by blast+
  have enc: "encryption_enabled cfg \<and> encryption_method cfg = ''gpg'' \<longrightarrow>
           gpg_encrypt_status env ap \<noteq> NotStarted
           \<and> (gpg_encrypt_status env ap = Exited0 \<longrightarrow> \<not> remove_fails env ap)"
    using err by simp
  from create_backup_completes [OF ap comps opn cls adds enc rem]
  show "\<exists>w'. create_backup cfg env arg w = (Inr ap, w')
                 \<and> lookup w' ap = Some (TarGz (members_of w ap comps), now env)
                 \<and> lookup w' (ap @ ''.gpg'') = lookup w (ap @ ''.gpg'')
                 \<and> Log ERROR ''Backup encryption failed: '' (Some (CalledProcessError ''gpg''))
                      \<in> set (logs w')"
    using enabled gpg err by auto
next
  assume ns: "gpg_encrypt_status env ap = NotStarted"
  from create_backup_gpg_not_started [OF ap comps opn cls adds enabled gpg ns]
  obtain w' where w': "create_backup cfg env arg w = (Inl (OSError ''gpg''), w')"
    "lookup w' ap = Some (TarGz (members_of w ap comps), now env)"
    "\<forall>q. q \<noteq> ap \<longrightarrow> lookup w' q = lookup w q"
    "calls w' = calls w @ [GpgSymmetric (passphrase env) ap]"
    "last (logs w') = Log ERROR ''Backup creation failed: '' (Some (OSError ''gpg''))"
    by blast
  have g: "lookup w' (ap @ ''.gpg'') = lookup w (ap @ ''.gpg'')" using w'(3) by simp
  show "\<exists>w'. create_backup cfg env arg w = (Inl (OSError ''gpg''), w')
                 \<and> lookup w' ap = Some (TarGz (members_of w ap comps), now env)
                 \<and> lookup w' (ap @ ''.gpg'') = lookup w (ap @ ''.gpg'')
                 \<and> calls w' = calls w @ [GpgSymmetric (passphrase env) ap]
                 \<and> last (logs w') = Log ERROR ''Backup creation failed: '' (Some (OSError ''gpg''))"
    by (rule exI [of _ w']) (intro conjI w'(1,2) g w'(4,5))
qed

theorem create_backup_gpg_failure_witness:
  "(\<exists>w'. create_backup cfg_enc env_gpg_error None w_one = (Inr ap_ex, w')
      \<and> lookup w' ap_ex = Some (TarGz [(''kamailio'', Opaque ''cfg'', 5)], now env_gpg_error)
      \<and> lookup w' (ap_ex @ ''.gpg'') = None
      \<and> Log ERROR ''Backup encryption failed: '' (Some (CalledProcessError ''gpg''))
           \<in> set (logs w'))
   \<and> (\<exists>w'. create_backup cfg_enc env_no_gpg None w_one = (Inl (OSError ''gpg''), w')
      \<and> lookup w' ap_ex = Some (TarGz [(''kamailio'', Opaque ''cfg'', 5)], now env_no_gpg)
      \<and> lookup w' (ap_ex @ ''.gpg'') = None
      \<and> calls w' = [GpgSymmetric ''default_key'' ap_ex]
      \<and> last (logs w') = Log ERROR ''Backup creation failed: '' (Some (OSError ''gpg'')))"
proof -
  let ?cs = "[''/etc/kamailio'', ''/missing'']"
  have e1: "lookup w_one (ap_ex @ ''.gpg'') = None" by code_simp
  have e2: "members_of w_one ap_ex ?cs = [(''kamailio'', Opaque ''cfg'', 5)]" by code_simp
  have e3: "calls w_one = []" by code_simp
  have h2: "components_to_backup cfg_enc = ?cs" by code_simp
  have h6: "encryption_enabled cfg_enc" by code_simp
  have h7: "encryption_method cfg_enc = ''gpg''" by code_simp
  have first: "\<exists>w'. create_backup cfg_enc env_gpg_error None w_one = (Inr ap_ex, w')
      \<and> lookup w' ap_ex = Some (TarGz [(''kamailio'', Opaque ''cfg'', 5)], now env_gpg_error)
      \<and> lookup w' (ap_ex @ ''.gpg'') = None
      \<and> Log ERROR ''Backup encryption failed: '' (Some (CalledProcessError ''gpg''))
           \<in> set (logs w')"
  proof -
    have h1: "backup_path_of cfg_enc env_gpg_error None = ap_ex" by code_simp
    have h3: "\<not> open_fails env_gpg_error ap_ex" by code_simp
    have h4: "\<forall>c\<in>set ?cs. c \<noteq> ap_ex \<longrightarrow> path_exists w_one c \<longrightarrow> \<not> add_fails env_gpg_error c"
      by code_simp
    have h5: "\<not> close_fails env_gpg_error ap_ex" by code_simp
    have h8: "gpg_encrypt_status env_gpg_error ap_ex = ExitedNonZero
          \<and> (remote_enabled cfg_enc \<and> rem_type (remote_config cfg_enc) = Some ''s3'' \<longrightarrow>
               bucket (remote_config cfg_enc) \<noteq> None \<and> access_key (remote_config cfg_enc) \<noteq> None
               \<and> secret_key (remote_config cfg_enc) \<noteq> None
               \<and> aws_status env_gpg_error ap_ex \<noteq> NotStarted)"
      by code_simp
    from create_backup_gpg_failure [OF h1 h2 h3 h4 h5 h6 h7] h8
    show ?thesis unfolding e1 e2 by blast
  qed
  have second: "\<exists>w'. create_backup cfg_enc env_no_gpg None w_one = (Inl (OSError ''gpg''), w')
      \<and> lookup w' ap_ex = Some (TarGz [(''kamailio'', Opaque ''cfg'', 5)], now env_no_gpg)
      \<and> lookup w' (ap_ex @ ''.gpg'') = None
      \<and> calls w' = [GpgSymmetric ''default_key'' ap_ex]
      \<and> last (logs w') = Log ERROR ''Backup creation failed: '' (Some (OSError ''gpg''))"
  proof -
    have h1: "backup_path_of cfg_enc env_no_gpg None = ap_ex" by code_simp
    have h3: "\<not> open_fails env_no_gpg ap_ex" by code_simp
    have h4: "\<forall>c\<in>set ?cs. c \<noteq> ap_ex \<longrightarrow> path_exists w_one c \<longrightarrow> \<not> add_fails env_no_gpg c"
      by code_simp
    have h5: "\<not> close_fails env_no_gpg ap_ex" by code_simp
    have h8: "gpg_encrypt_status env_no_gpg ap_ex = NotStarted" by code_simp
    have e4: "passphrase env_no_gpg = ''default_key''" by code_simp
    from create_backup_gpg_failure [OF h1 h2 h3 h4 h5 h6 h7] h8
    show ?thesis unfolding e1 e2 e3 e4 by simp
  qed
  show ?thesis by (intro conjI first second)
qed

text \<open>
  C5 as stated fails: when \<^verbatim>\<open>gpg\<close> cannot be started (it is not installed),
  \<^verbatim>\<open>subprocess.run\<close> raises an \<^verbatim>\<open>OSError\<close>, which \<open>encrypt_backup\<close> does not
  catch: the backup run fails, with the plaintext archive left in place.
\<close>

theorem create_backup_fatal_when_gpg_cannot_start:
  "fst (create_backup cfg_enc env_no_gpg None w_one) = Inl (OSError ''gpg'')
   \<and> lookup (snd (create_backup cfg_enc env_no_gpg None w_one)) ap_ex
       = Some (TarGz [(''kamailio'', Opaque ''cfg'', 5)], now env_no_gpg)"
  by code_simp

subsection \<open>C6: Failure of the service restart\<close>

text \<open>
  C6 (as amended). When the archive has been unpacked and restarting the service fails
  (\<^verbatim>\<open>systemctl\<close> exits with an error or cannot be started), \<open>restore_backup\<close> logs the
  failure and raises it to its caller: the restore does not complete. The files stay as
  the unpacking left them; nothing is rolled back.
\<close>

theorem restore_backup_restart_failure:
  assumes dec: "decrypt_if_encrypted env bp w = (Inr p, w1)"
    and arch: "lookup w1 p = Some (TarGz ms, t)"
    and opn: "\<not> open_fails env p"
    and ext: "\<forall>m\<in>set ms. \<not> extract_fails env (path_join ''/'' (fst m))"
    and fail: "systemctl_status env \<noteq> Exited0"
  shows "\<exists>e w'. restore_backup env bp w = (Inl e, w')
           \<and> e = (if systemctl_status env = NotStarted then OSError ''systemctl''
                  else CalledProcessError ''systemctl'')
           \<and> files w' = unpacked ms (files w1)
           \<and> calls w' = calls w1 @ [SystemctlRestart ''kamailio'']
           \<and> last (logs w') = Log ERROR ''Backup restoration failed: '' (Some e)"
proof -
  let ?e = "if systemctl_status env = NotStarted then OSError ''systemctl''
            else CalledProcessError ''systemctl''"
  have o: "tar_open_r env p w1 = (Inr ms, w1)"
    using arch opn by (simp add: tar_open_r_def archive_members_def)
  from extractall_ok [OF ext, of w1] obtain w3 where
    w3: "extractall env ms w1 = (Inr (), w3)" "files w3 = unpacked ms (files w1)"
      "logs w3 = logs w1" "calls w3 = calls w1"
    by blast
  let ?w4 = "record_call (SystemctlRestart ''kamailio'') w3"
  have r: "restart_kamailio env w3 = (Inl ?e, ?w4)"
    using fail by (cases "systemctl_status env") (simp_all add: restart_kamailio_cases)
  have "unpack_and_restart env p w1 = (Inl ?e, ?w4)"
    by (simp add: unpack_and_restart_def o w3(1) r)
  then have "restore_backup env bp w
               = (Inl ?e, log_exc ERROR ''Backup restoration failed: '' ?e ?w4)"
    by (simp add: restore_backup_unfold dec)
  then show ?thesis using w3 by simp
qed

theorem restore_backup_restart_failure_witness:
  "\<exists>w'. restore_backup env_restart_fails ''/b/x.tar.gz'' w_artifacts
           = (Inl (CalledProcessError ''systemctl''), w')
     \<and> lookup w' ''/kamailio'' = Some (Opaque ''cfg'', 5)
     \<and> calls w' = [SystemctlRestart ''kamailio'']"
proof -
  let ?ms = "[(''kamailio'', Opaque ''cfg'', 5)]"
  have h1: "decrypt_if_encrypted env_restart_fails ''/b/x.tar.gz'' w_artifacts
              = (Inr ''/b/x.tar.gz'', w_artifacts)" by code_simp
  have h2: "lookup w_artifacts ''/b/x.tar.gz'' = Some (TarGz ?ms, 9)" by code_simp
  have h3: "\<not> open_fails env_restart_fails ''/b/x.tar.gz''" by code_simp
  have h4: "\<forall>m\<in>set ?ms. \<not> extract_fails env_restart_fails (path_join ''/'' (fst m))" by code_simp
  have h5: "systemctl_status env_restart_fails \<noteq> Exited0" by code_simp
  have e1: "systemctl_status env_restart_fails \<noteq> NotStarted" by code_simp
  have e2: "map_of (unpacked ?ms (files w_artifacts)) ''/kamailio'' = Some (Opaque ''cfg'', 5)"
    by code_simp
  have e3: "calls w_artifacts = []" by code_simp
  from restore_backup_restart_failure [OF h1 h2 h3 h4 h5] obtain e w' where
    w': "restore_backup env_restart_fails ''/b/x.tar.gz'' w_artifacts = (Inl e, w')"
      "e = (if systemctl_status env_restart_fails = NotStarted then OSError ''systemctl''
                  else CalledProcessError ''systemctl'')"
      "files w' = unpacked ?ms (files w_artifacts)"
      "calls w' = calls w_artifacts @ [SystemctlRestart ''kamailio'']"
    by blast
  have a: "restore_backup env_restart_fails ''/b/x.tar.gz'' w_artifacts
           = (Inl (CalledProcessError ''systemctl''), w')"
    using w'(1,2) e1 by simp
  have b: "lookup w' ''/kamailio'' = Some (Opaque ''cfg'', 5)"
    using e2 by (simp add: lookup_def w'(3))
  have c: "calls w' = [SystemctlRestart ''kamailio'']" using w'(4) e3 by simp
  show ?thesis
    by (rule exI [of _ w']) (intro conjI a b c)
qed

text \<open>
  C6 as stated fails: the archive is unpacked, \<^verbatim>\<open>systemctl restart kamailio\<close> exits
  with an error, and \<open>restore_backup\<close> raises \<^verbatim>\<open>CalledProcessError\<close> to its caller.
\<close>

theorem restore_backup_raises_on_restart_failure:
  "fst (restore_backup env_restart_fails ''/b/x.tar.gz'' w_artifacts)
     = Inl (CalledProcessError ''systemctl'')
   \<and> lookup (snd (restore_backup env_restart_fails ''/b/x.tar.gz'' w_artifacts)) ''/kamailio''
       = Some (Opaque ''cfg'', 5)
   \<and> logs (snd (restore_backup env_restart_fails ''/b/x.tar.gz'' w_artifacts))
       = [Log ERROR ''Backup restoration failed: '' (Some (CalledProcessError ''systemctl''))]"
  by code_simp

subsection \<open>C7: Restore with a wrong passphrase\<close>

text \<open>
  C7. Restoring an artifact whose name ends in \<^verbatim>\<open>.gpg\<close> and which is encrypted under a
  passphrase other than the one in use fails: the error of the decryption step is logged
  and raised to the caller (\<^verbatim>\<open>CalledProcessError\<close> whenever \<^verbatim>\<open>gpg\<close> could be started),
  no file is written or changed, and the only command issued is the \<^verbatim>\<open>gpg\<close> call:
  nothing is unpacked and no restart is attempted.
\<close>

theorem restore_backup_wrong_passphrase:
  assumes suffix: "endswith bp ''.gpg''"
    and enc: "lookup w bp = Some (Gpg k c, t)"
    and wrong: "k \<noteq> passphrase env"
  shows "\<exists>e w'. restore_backup env bp w = (Inl e, w')
           \<and> e = (if gpg_decrypt_status env bp = NotStarted then OSError ''gpg''
                  else CalledProcessError ''gpg'')
           \<and> files w' = files w
           \<and> calls w' = calls w @ [GpgDecrypt (passphrase env) (take (length bp - 4) bp) bp]
           \<and> last (logs w') = Log ERROR ''Backup restoration failed: '' (Some e)"
proof -
  let ?dp = "take (length bp - 4) bp"
  let ?e = "if gpg_decrypt_status env bp = NotStarted then OSError ''gpg''
            else CalledProcessError ''gpg''"
  let ?w1 = "record_call (GpgDecrypt (passphrase env) ?dp bp) w"
  have "decrypt_if_encrypted env bp w = (Inl ?e, ?w1)"
    using suffix gpg_decrypt_wrong_key [OF enc wrong, of ?dp]
    by (simp add: decrypt_if_encrypted_def Let_def)
  then have "restore_backup env bp w
               = (Inl ?e, log_exc ERROR ''Backup restoration failed: '' ?e ?w1)"
    by (simp add: restore_backup_unfold)
  then show ?thesis by simp
qed

theorem restore_backup_wrong_passphrase_witness:
  "\<exists>w'. restore_backup env_ok ''/b/y.tar.gz.gpg'' w_artifacts = (Inl (CalledProcessError ''gpg''), w')
     \<and> files w' = files w_artifacts
     \<and> calls w' = [GpgDecrypt ''default_key'' ''/b/y.tar.gz'' ''/b/y.tar.gz.gpg'']"
proof -
  let ?c = "TarGz [(''kamailio'', Opaque ''cfg'', 5)]"
  have h1: "endswith ''/b/y.tar.gz.gpg'' ''.gpg''" by code_simp
  have h2: "lookup w_artifacts ''/b/y.tar.gz.gpg'' = Some (Gpg ''secret'' ?c, 9)" by code_simp
  have h3: "''secret'' \<noteq> passphrase env_ok" by code_simp
  have e1: "gpg_decrypt_status env_ok ''/b/y.tar.gz.gpg'' \<noteq> NotStarted" by code_simp
  have e2: "passphrase env_ok = ''default_key''" by code_simp
  have e3: "take (length ''/b/y.tar.gz.gpg'' - 4) ''/b/y.tar.gz.gpg'' = ''/b/y.tar.gz''" by code_simp
  have e4: "calls w_artifacts = []" by code_simp
  from restore_backup_wrong_passphrase [OF h1 h2 h3] obtain e w' where
    w': "restore_backup env_ok ''/b/y.tar.gz.gpg'' w_artifacts = (Inl e, w')"
      "e = (if gpg_decrypt_status env_ok ''/b/y.tar.gz.gpg'' = NotStarted then OSError ''gpg''
            else CalledProcessError ''gpg'')"
      "files w' = files w_artifacts"
      "calls w' = calls w_artifacts
         @ [GpgDecrypt (passphrase env_ok)
              (take (length ''/b/y.tar.gz.gpg'' - 4) ''/b/y.tar.gz.gpg'') ''/b/y.tar.gz.gpg'']"
    by blast
  have a: "restore_backup env_ok ''/b/y.tar.gz.gpg'' w_artifacts = (Inl (CalledProcessError ''gpg''), w')"
    using w'(1,2) e1 by simp
  have b: "calls w' = [GpgDecrypt ''default_key'' ''/b/y.tar.gz'' ''/b/y.tar.gz.gpg'']"
    using w'(4) unfolding e2 e3 e4 by simp
  show ?thesis
    by (rule exI [of _ w']) (intro conjI a w'(3) b)
qed

subsection \<open>C8: Backup of the configured components\<close>

text \<open>
  C8 (as amended). Whatever the configured component list, as long as the archive can be
  opened, written and closed and the later stages raise nothing, \<open>create_backup\<close> returns
  the archive path, and the run leaves exactly one artifact: the archive holding exactly
  the components that \<^verbatim>\<open>tar.add\<close> stores, each under its base name, at the archive path,
  or, when \<^verbatim>\<open>gpg\<close> encrypted it, its encryption beside a deleted plaintext. The stored
  components are the existing ones other than the archive's own path and other than files
  of a type an archive cannot hold, which are left out without a message. No other file
  changes, and each missing component is a logged warning.
\<close>

theorem create_backup_archives_stored_components:
  assumes ap: "backup_path_of cfg env arg = ap"
    and comps: "components_to_backup cfg = comps"
    and opn: "\<not> open_fails env ap"
    and adds: "\<forall>c\<in>set comps. c \<noteq> ap \<longrightarrow> path_exists w c \<longrightarrow> \<not> add_fails env c"
    and cls: "\<not> close_fails env ap"
    and enc: "encryption_enabled cfg \<and> encryption_method cfg = ''gpg'' \<longrightarrow>
           gpg_encrypt_status env ap \<noteq> NotStarted
           \<and> (gpg_encrypt_status env ap = Exited0 \<longrightarrow> \<not> remove_fails env ap)"
    and rem: "remote_enabled cfg \<and> rem_type (remote_config cfg) = Some ''s3'' \<longrightarrow>
             bucket (remote_config cfg) \<noteq> None \<and> access_key (remote_config cfg) \<noteq> None
             \<and> secret_key (remote_config cfg) \<noteq> None \<and> aws_status env ap \<noteq> NotStarted"
  shows "\<exists>w'. create_backup cfg env arg w = (Inr ap, w')
           \<and> (if encryption_enabled cfg \<and> encryption_method cfg = ''gpg''
                  \<and> gpg_encrypt_status env ap = Exited0
               then lookup w' ap = None
                 \<and> lookup w' (ap @ ''.gpg'')
                     = Some (Gpg (passphrase env) (TarGz (members_of w ap comps)), now env)
               else lookup w' ap = Some (TarGz (members_of w ap comps), now env)
                 \<and> lookup w' (ap @ ''.gpg'') = lookup w (ap @ ''.gpg''))
           \<and> (\<forall>q. q \<noteq> ap \<and> q \<noteq> ap @ ''.gpg'' \<longrightarrow> lookup w' q = lookup w q)
           \<and> (\<forall>c\<in>set comps. c \<noteq> ap \<and> \<not> path_exists w c \<longrightarrow>
                 Log WARNING (''Backup component not found: '' @ c) None \<in> set (logs w'))
           \<and> map fst (members_of w ap comps)
               = map basename
                   (filter (\<lambda>c. c \<noteq> ap \<and> path_exists w c \<and> fst (the (lookup w c)) \<noteq> Socket) comps)"
proof -
  have m: "map fst (members_of w ap comps)
               = map basename
                   (filter (\<lambda>c. c \<noteq> ap \<and> path_exists w c \<and> fst (the (lookup w c)) \<noteq> Socket) comps)"
    by (induction comps) (auto simp: stored_def path_exists_def split: option.splits)
  from create_backup_completes [OF ap comps opn cls adds enc rem] m
  show ?thesis by blast
qed

theorem create_backup_archives_stored_components_witness:
  "\<exists>w'. create_backup cfg_socket env_ok None w_socket = (Inr ap_ex, w')
     \<and> lookup w' ap_ex = Some (TarGz [(''kamailio'', Opaque ''cfg'', 5)], now env_ok)
     \<and> lookup w' (ap_ex @ ''.gpg'') = None
     \<and> lookup w' ''/etc/kamailio'' = Some (Opaque ''cfg'', 5)
     \<and> lookup w' ''/run/kamailio/kamailio_ctl'' = Some (Socket, 7)
     \<and> Log WARNING ''Backup component not found: /missing'' None \<in> set (logs w')"
proof -
  let ?cs = "[''/etc/kamailio'', ap_ex, ''/run/kamailio/kamailio_ctl'', ''/missing'']"
  have h1: "backup_path_of cfg_socket env_ok None = ap_ex" by code_simp
  have h2: "components_to_backup cfg_socket = ?cs" by code_simp
  have h3: "\<not> open_fails env_ok ap_ex" by code_simp
  have h4: "\<forall>c\<in>set ?cs. c \<noteq> ap_ex \<longrightarrow> path_exists w_socket c \<longrightarrow> \<not> add_fails env_ok c"
    by code_simp
  have h5: "\<not> close_fails env_ok ap_ex" by code_simp
  have h6: "encryption_enabled cfg_socket \<and> encryption_method cfg_socket = ''gpg'' \<longrightarrow>
           gpg_encrypt_status env_ok ap_ex \<noteq> NotStarted
           \<and> (gpg_encrypt_status env_ok ap_ex = Exited0 \<longrightarrow> \<not> remove_fails env_ok ap_ex)"
    by code_simp
  have h7: "remote_enabled cfg_socket \<and> rem_type (remote_config cfg_socket) = Some ''s3'' \<longrightarrow>
             bucket (remote_config cfg_socket) \<noteq> None \<and> access_key (remote_config cfg_socket) \<noteq> None
             \<and> secret_key (remote_config cfg_socket) \<noteq> None \<and> aws_status env_ok ap_ex \<noteq> NotStarted"
    by code_simp
  have e1: "\<not> (encryption_enabled cfg_socket \<and> encryption_method cfg_socket = ''gpg''
                \<and> gpg_encrypt_status env_ok ap_ex = Exited0)" by code_simp
  have e2: "members_of w_socket ap_ex ?cs = [(''kamailio'', Opaque ''cfg'', 5)]"
    by code_simp
  have e3: "''/missing'' \<in> set ?cs \<and> ''/missing'' \<noteq> ap_ex \<and> \<not> path_exists w_socket ''/missing''"
    by code_simp
  have e4: "lookup w_socket ''/etc/kamailio'' = Some (Opaque ''cfg'', 5)" by code_simp
  have e5: "''/etc/kamailio'' \<noteq> ap_ex \<and> ''/etc/kamailio'' \<noteq> ap_ex @ ''.gpg''" by code_simp
  have e6: "lookup w_socket ''/run/kamailio/kamailio_ctl'' = Some (Socket, 7)" by code_simp
  have e7: "''/run/kamailio/kamailio_ctl'' \<noteq> ap_ex
            \<and> ''/run/kamailio/kamailio_ctl'' \<noteq> ap_ex @ ''.gpg''" by code_simp
  have e8: "lookup w_socket (ap_ex @ ''.gpg'') = None" by code_simp
  from create_backup_archives_stored_components [OF h1 h2 h3 h4 h5 h6 h7]
  obtain w' where w': "create_backup cfg_socket env_ok None w_socket = (Inr ap_ex, w')"
    "if encryption_enabled cfg_socket \<and> encryption_method cfg_socket = ''gpg''
                  \<and> gpg_encrypt_status env_ok ap_ex = Exited0
               then lookup w' ap_ex = None
                 \<and> lookup w' (ap_ex @ ''.gpg'')
                     = Some (Gpg (passphrase env_ok) (TarGz (members_of w_socket ap_ex ?cs)), now env_ok)
               else lookup w' ap_ex = Some (TarGz (members_of w_socket ap_ex ?cs), now env_ok)
                 \<and> lookup w' (ap_ex @ ''.gpg'') = lookup w_socket (ap_ex @ ''.gpg'')"
    "\<forall>q. q \<noteq> ap_ex \<and> q \<noteq> ap_ex @ ''.gpg'' \<longrightarrow> lookup w' q = lookup w_socket q"
    "\<forall>c\<in>set ?cs. c \<noteq> ap_ex \<and> \<not> path_exists w_socket c \<longrightarrow>
                 Log WARNING (''Backup component not found: '' @ c) None \<in> set (logs w')"
    by blast
  from w'(2) e1 have plain: "lookup w' ap_ex = Some (TarGz (members_of w_socket ap_ex ?cs), now env_ok)
                 \<and> lookup w' (ap_ex @ ''.gpg'') = lookup w_socket (ap_ex @ ''.gpg'')"
    by (simp only: if_False)
  have a: "lookup w' ap_ex = Some (TarGz [(''kamailio'', Opaque ''cfg'', 5)], now env_ok)"
    using plain e2 by simp
  have a': "lookup w' (ap_ex @ ''.gpg'') = None" using plain e8 by simp
  have b: "lookup w' ''/etc/kamailio'' = Some (Opaque ''cfg'', 5)"
    using w'(3) e4 e5 by simp
  have b': "lookup w' ''/run/kamailio/kamailio_ctl'' = Some (Socket, 7)"
    using w'(3) e6 e7 by simp
  have "Log WARNING (''Backup component not found: '' @ ''/missing'') None \<in> set (logs w')"
    using w'(4) e3 by blast
  then have c: "Log WARNING ''Backup component not found: /missing'' None \<in> set (logs w')"
    by simp
  show ?thesis
    by (rule exI [of _ w']) (intro conjI w'(1) a a' b b' c)
qed

text \<open>
  C8 as stated fails: both configured components exist, one of them the control socket of
  the server. The run succeeds, the archive holds only the other component, and the log
  has no warning.
\<close>

theorem create_backup_leaves_out_socket:
  "fst (create_backup cfg_ctl env_ok None w_socket) = Inr ap_ex
   \<and> components_to_backup cfg_ctl = [''/etc/kamailio'', ''/run/kamailio/kamailio_ctl'']
   \<and> path_exists w_socket ''/etc/kamailio''
   \<and> path_exists w_socket ''/run/kamailio/kamailio_ctl''
   \<and> lookup (snd (create_backup cfg_ctl env_ok None w_socket)) ap_ex
       = Some (TarGz [(''kamailio'', Opaque ''cfg'', 5)], now env_ok)
   \<and> logs (snd (create_backup cfg_ctl env_ok None w_socket))
       = [Log INFO (''Backup created: '' @ ap_ex) None]"
  by code_simp

subsection \<open>C9: Loading the configuration\<close>

text \<open>
  C9 (as amended). A missing configuration file yields the built-in defaults with a logged
  warning, and a file that is not JSON yields the same defaults with a logged error. A
  file holding a JSON object is returned as it is when it has the four required keys; when
  one is missing, \<open>load_recovery_config\<close> raises a \<^verbatim>\<open>ValueError\<close> naming the first
  missing key to its caller.
\<close>

theorem load_recovery_config_outcomes:
  "load_recovery_config NoFile p w
     = (Inr get_default_config,
        log_msg WARNING (''Recovery config not found at '' @ p @ ''. Using defaults.'') w)
   \<and> load_recovery_config NotJSON p w
     = (Inr get_default_config, log_msg ERROR (''Invalid JSON in '' @ p) w)
   \<and> (\<forall>kvs. set required_keys \<subseteq> fst ` set kvs \<longrightarrow>
         load_recovery_config (Parsed (JObject kvs)) p w = (Inr (JObject kvs), w))
   \<and> (\<forall>kvs k. find (\<lambda>k. k \<notin> fst ` set kvs) required_keys = Some k \<longrightarrow>
         load_recovery_config (Parsed (JObject kvs)) p w
           = (Inl (ValueError (''Missing required configuration key: '' @ k)), w))"
proof (intro conjI allI impI)
  show "load_recovery_config NoFile p w
     = (Inr get_default_config,
        log_msg WARNING (''Recovery config not found at '' @ p @ ''. Using defaults.'') w)"
    by (simp add: load_recovery_config_def)
  show "load_recovery_config NotJSON p w
     = (Inr get_default_config, log_msg ERROR (''Invalid JSON in '' @ p) w)"
    by (simp add: load_recovery_config_def)
next
  fix kvs :: "(string \<times> json) list"
  assume "set required_keys \<subseteq> fst ` set kvs"
  then have "find (\<lambda>k. k \<notin> fst ` set kvs) required_keys = None"
    by (auto simp: find_None_iff)
  then show "load_recovery_config (Parsed (JObject kvs)) p w = (Inr (JObject kvs), w)"
    by (simp add: load_recovery_config_def validate_config_def check_keys_object)
next
  fix kvs :: "(string \<times> json) list" and k
  assume "find (\<lambda>k. k \<notin> fst ` set kvs) required_keys = Some k"
  then show "load_recovery_config (Parsed (JObject kvs)) p w
           = (Inl (ValueError (''Missing required configuration key: '' @ k)), w)"
    by (simp add: load_recovery_config_def validate_config_def check_keys_object)
qed

theorem load_recovery_config_outcomes_witness:
  "load_recovery_config (Parsed get_default_config) ''/etc/kamailio/disaster_recovery.json'' w_one
     = (Inr get_default_config, w_one)
   \<and> load_recovery_config (Parsed (JObject [])) ''/etc/kamailio/disaster_recovery.json'' w_one
     = (Inl (ValueError ''Missing required configuration key: backup_directory''), w_one)"
proof -
  let ?p = "''/etc/kamailio/disaster_recovery.json''"
  let ?kvs = "[(''backup_directory'', JString ''/var/backups/kamailio''),
      (''backup_retention_days'', JNumber 30),
      (''backup_type'', JString ''full''),
      (''components_to_backup'',
         JArray [JString ''/etc/kamailio'', JString ''/var/lib/kamailio'',
                 JString ''/var/log/kamailio'']),
      (''remote_backup'', JObject
         [(''enabled'', JBool False), (''type'', JString ''s3''), (''bucket'', JString []),
          (''access_key'', JString []), (''secret_key'', JString [])]),
      (''encryption'', JObject [(''enabled'', JBool True), (''method'', JString ''gpg'')])]"
  have d: "get_default_config = JObject ?kvs" by (simp add: get_default_config_def)
  have h1: "set required_keys \<subseteq> fst ` set ?kvs" by code_simp
  have h2: "find (\<lambda>k. k \<notin> fst ` set ([] :: (string \<times> json) list)) required_keys
              = Some ''backup_directory''" by code_simp
  note T = load_recovery_config_outcomes [of ?p w_one]
  from T h1 have a: "load_recovery_config (Parsed (JObject ?kvs)) ?p w_one = (Inr (JObject ?kvs), w_one)"
    by blast
  from T h2 have "load_recovery_config (Parsed (JObject [])) ?p w_one
           = (Inl (ValueError (''Missing required configuration key: '' @ ''backup_directory'')), w_one)"
    by blast
  then have b: "load_recovery_config (Parsed (JObject [])) ?p w_one
     = (Inl (ValueError ''Missing required configuration key: backup_directory''), w_one)"
    by simp
  show ?thesis unfolding d by (intro conjI a b)
qed

text \<open>
  C9 as stated fails: a configuration file that is valid JSON and lacks a required key
  makes \<open>load_recovery_config\<close> raise; no configuration is returned.
\<close>

theorem load_recovery_config_raises_on_missing_key:
  "fst (load_recovery_config (Parsed (JObject [(''backup_directory'', JString ''/b'')]))
          ''/etc/kamailio/disaster_recovery.json'' w_one)
     = Inl (ValueError ''Missing required configuration key: backup_retention_days'')"
  by code_simp

subsection \<open>C10: The decrypted copy left by a restore\<close>

text \<open>
  C10 (as amended). Restoring an artifact whose name ends in \<^verbatim>\<open>.gpg\<close>, with the right passphrase
  and a \<^verbatim>\<open>gpg\<close> that succeeds, writes the decrypted archive at the sibling path without
  the suffix, and when \<open>restore_backup\<close> is over (however it ends) the decrypted copy and
  the encrypted original are both still there, provided the archive does not itself unpack
  a member onto one of these two paths: \<open>restore_backup\<close> deletes nothing.
\<close>

theorem restore_backup_leaves_decrypted_copy:
  assumes suffix: "endswith bp ''.gpg''"
    and enc: "lookup w bp = Some (Gpg k c, t)"
    and key: "k = passphrase env"
    and ok: "gpg_decrypt_status env bp = Exited0"
    and dp: "dp = take (length bp - 4) bp"
    and nd: "dp \<notin> set (extract_targets c)"
    and nb: "bp \<notin> set (extract_targets c)"
  shows "lookup (snd (restore_backup env bp w)) dp = Some (c, now env)
       \<and> lookup (snd (restore_backup env bp w)) bp = Some (Gpg k c, t)"
proof -
  let ?w1 = "write_file dp c (now env) (record_call (GpgDecrypt (passphrase env) dp bp) w)"
  have ne: "dp \<noteq> bp" unfolding dp using suffix by (rule endswith_gpg_shorter)
  have d: "decrypt_if_encrypted env bp w = (Inr dp, ?w1)"
    using suffix gpg_decrypt_right_key [OF enc key ok, of dp] dp
    by (simp add: decrypt_if_encrypted_def Let_def)
  have l1: "lookup ?w1 dp = Some (c, now env)" by simp
  have l2: "lookup ?w1 bp = Some (Gpg k c, t)" using enc ne by simp
  obtain r w2 where u: "unpack_and_restart env dp ?w1 = (r, w2)"
    by (cases "unpack_and_restart env dp ?w1")
  have f1: "lookup w2 dp = lookup ?w1 dp"
    using u by (rule unpack_and_restart_frame) (use l1 nd in simp)
  have f2: "lookup w2 bp = lookup ?w1 bp"
    using u by (rule unpack_and_restart_frame) (use l1 nb in simp)
  have "\<And>q. lookup (snd (restore_backup env bp w)) q = lookup w2 q"
    by (cases r) (simp_all add: restore_backup_unfold d u)
  then show ?thesis using f1 f2 l1 l2 by simp
qed

theorem restore_backup_leaves_decrypted_copy_witness:
  "lookup (snd (restore_backup env_secret ''/b/y.tar.gz.gpg'' w_artifacts)) ''/b/y.tar.gz''
     = Some (TarGz [(''kamailio'', Opaque ''cfg'', 5)], now env_secret)
   \<and> lookup (snd (restore_backup env_secret ''/b/y.tar.gz.gpg'' w_artifacts)) ''/b/y.tar.gz.gpg''
     = Some (Gpg ''secret'' (TarGz [(''kamailio'', Opaque ''cfg'', 5)]), 9)"
proof -
  let ?c = "TarGz [(''kamailio'', Opaque ''cfg'', 5)]"
  have h1: "endswith ''/b/y.tar.gz.gpg'' ''.gpg''" by code_simp
  have h2: "lookup w_artifacts ''/b/y.tar.gz.gpg'' = Some (Gpg ''secret'' ?c, 9)" by code_simp
  have h3: "''secret'' = passphrase env_secret" by code_simp
  have h4: "gpg_decrypt_status env_secret ''/b/y.tar.gz.gpg'' = Exited0" by code_simp
  have h5: "''/b/y.tar.gz'' = take (length ''/b/y.tar.gz.gpg'' - 4) ''/b/y.tar.gz.gpg''" by code_simp
  have h6: "''/b/y.tar.gz'' \<notin> set (extract_targets ?c)" by code_simp
  have h7: "''/b/y.tar.gz.gpg'' \<notin> set (extract_targets ?c)" by code_simp
  from restore_backup_leaves_decrypted_copy [OF h1 h2 h3 h4 h5 h6 h7]
  show ?thesis .
qed

text \<open>
  C10 as stated fails: the encrypted archive holds a member that unpacks onto the path of
  the decrypted copy. The restore completes, and the path beside the encrypted artifact
  holds that member, not the decrypted archive.
\<close>

theorem restore_backup_unpacks_over_decrypted_copy:
  "fst (restore_backup env_secret ''/b/y.tar.gz.gpg'' w_overwrite) = Inr ()
   \<and> lookup w_overwrite ''/b/y.tar.gz.gpg''
       = Some (Gpg ''secret'' (TarGz [(''b/y.tar.gz'', Opaque ''old'', 3)]), 9)
   \<and> lookup (snd (restore_backup env_secret ''/b/y.tar.gz.gpg'' w_overwrite)) ''/b/y.tar.gz''
       = Some (Opaque ''old'', 3)"
  by code_simp

end
